theory Spec2Isabelle
  imports Complex_Main "HOL-Library.Word" "HOL-Library.Log_Nat"
begin

section \<open>Data model\<close>

text \<open>
  The firmware keeps its state in file-level statics of three translation units
  (\<^verbatim>\<open>position_sensor.cpp\<close>, \<^verbatim>\<open>controller.cpp\<close>, \<^verbatim>\<open>button_handler.cpp\<close>).
  The statics become fields of a record that every operation takes and returns.
  \<^verbatim>\<open>uint32_t\<close> is \<open>32 word\<close>: \<open>+\<close> and \<open>-\<close> wrap, \<open><\<close> and \<open>\<le>\<close> compare unsigned.
\<close>

type_synonym u32 = "32 word"

datatype state_t = IDLE | MOVING_UP | MOVING_DOWN | CALIBRATING

datatype calibration_step_t =
    CALIBRATION_STEP_UPPER
  | CALIBRATION_STEP_LOWER
  | CALIBRATION_STEP_ZEBRA_OFFSET
  | CALIBRATION_STEP_COMPLETE

text \<open>
  \<^verbatim>\<open>button_event_t\<close> comes from the debounce driver's header; the controller switches on
  five of its values, the poller compares against \<^verbatim>\<open>BUTTON_PRESS_DOWN\<close>, and
  \<^verbatim>\<open>button_handler.h\<close> adds \<^verbatim>\<open>BUTTON_EVENT_SIMULTANEOUS_PRESS = 100\<close>.
\<close>

datatype button_event_t =
    BUTTON_PRESS_DOWN
  | BUTTON_PRESS_UP
  | BUTTON_PRESS_REPEAT
  | BUTTON_SINGLE_CLICK
  | BUTTON_DOUBLE_CLICK
  | BUTTON_LONG_PRESS_START
  | BUTTON_LONG_PRESS_HOLD
  | BUTTON_NONE_PRESS
  | BUTTON_EVENT_SIMULTANEOUS_PRESS

datatype button_id_t = BUTTON_ID_UP | BUTTON_ID_DOWN

datatype motor_direction_t = MOTOR_DIR_UP | MOTOR_DIR_DOWN

text \<open>
  \<^verbatim>\<open>calibration_step_callback_t\<close> is a function pointer; the only function ever stored in it
  is \<^verbatim>\<open>get_calibration_step_description\<close>, and \<open>None\<close> is \<^verbatim>\<open>NULL\<close>. The texts it
  returns are only logged, so a prompt is recorded by the step it describes.
\<close>

datatype calibration_step_callback_t = get_calibration_step_description

text \<open>
  Modelled from the spec: the motor driver behind \<^verbatim>\<open>motor_control.h\<close>, a collaborator
  of the controller. It accepts direction, speed and step-count commands, answers a
  "currently moving" query and has a stop command. The model keeps the commands it
  received and a moving flag that a step command sets and a stop command clears.
\<close>

datatype motor_cmd =
    SetDirection motor_direction_t
  | SetSpeed u32
  | Step u32
  | Stop

text \<open>
  Modelled from the spec: the persistent key-value store, namespace
  \<^verbatim>\<open>position_sensor\<close>, with the four persisted fields; a missing key is \<open>None\<close>.
  In the state, \<open>nvs\<close> is the namespace (\<open>None\<close> while it does not exist) and
  \<open>nvs_fails\<close> says that opening it fails in any case.
\<close>

record nvs_store =
  nvs_upper_position :: "u32 option"
  nvs_lower_position :: "u32 option"
  nvs_zebra_offset :: "u32 option"
  nvs_zebra_enabled :: "8 word option"

text \<open>
  Build-time configuration (\<^verbatim>\<open>sdkconfig.h\<close>); \<open>CONFIG_FREERTOS_HZ\<close> is the tick
  rate behind \<^verbatim>\<open>pdMS_TO_TICKS\<close>.
\<close>

record sdkconfig =
  CONFIG_ZEBRA_BLINDS_SUPPORT :: bool
  CONFIG_MOTOR_DEFAULT_SPEED :: u32
  CONFIG_FREERTOS_HZ :: nat

text \<open>
  \<^verbatim>\<open>pdMS_TO_TICKS\<close> of FreeRTOS: milliseconds times the tick rate, divided by 1000.
\<close>

definition pdMS_TO_TICKS :: "sdkconfig \<Rightarrow> nat \<Rightarrow> u32" where
  "pdMS_TO_TICKS cfg ms = word_of_nat (ms * CONFIG_FREERTOS_HZ cfg div 1000)"

record system =
  \<comment> \<open>\<^verbatim>\<open>position_sensor.cpp\<close>: \<^verbatim>\<open>position_config\<close> and the other statics\<close>
  min_position :: u32
  max_position :: u32
  current_position :: u32
  calibrated :: bool
  sensor_initialized :: bool
  current_calibration_step :: calibration_step_t
  calibration_upper_position :: u32
  calibration_lower_position :: u32
  calibration_zebra_offset :: u32
  calibration_zebra_enabled :: bool
  filter_buffer :: "u32 list"
  filter_index :: nat
  \<comment> \<open>\<^verbatim>\<open>controller.cpp\<close>: \<^verbatim>\<open>g_config\<close> and the other statics\<close>
  g_config_state :: state_t
  g_config_auto_calibrate :: bool
  g_config_position_current_position :: u32
  g_button_held :: bool
  g_calibration_callback :: "calibration_step_callback_t option"
  g_boundary_check_task :: bool
  last_direction_up :: bool
  calibration_prompts :: "calibration_step_t list"
  \<comment> \<open>the collaborators: raw ADC samples still to come, the store, the motor\<close>
  adc_samples :: "nat \<Rightarrow> int"
  adc_reads :: nat
  nvs :: "nvs_store option"
  nvs_fails :: bool
  motor_moving :: bool
  motor_commands :: "motor_cmd list"

section \<open>Position reader (\<^verbatim>\<open>position_sensor.cpp\<close>)\<close>

definition position_sensor_init :: "system \<Rightarrow> system" where
  "position_sensor_init s =
     s\<lparr>min_position := 100, max_position := 3900, current_position := 0,
       calibrated := False, sensor_initialized := True\<rparr>"

text \<open>
  \<^verbatim>\<open>adc1_get_raw\<close> hands out the next raw sample (a C \<^verbatim>\<open>int\<close>, negative on error).
\<close>

definition adc1_get_raw :: "system \<Rightarrow> int \<times> system" where
  "adc1_get_raw s = (adc_samples s (adc_reads s), s\<lparr>adc_reads := Suc (adc_reads s)\<rparr>)"

text \<open>
  The clamp at the end of \<^verbatim>\<open>position_sensor_read\<close>: below the minimum gives the minimum,
  else above the maximum gives the maximum.
\<close>

definition clamp_position :: "u32 \<Rightarrow> u32 \<Rightarrow> u32 \<Rightarrow> u32" where
  "clamp_position lo hi v = (if v < lo then lo else if v > hi then hi else v)"

text \<open>
  \<^verbatim>\<open>position_sensor_read\<close>: 0 when not initialised; the cached position when the raw sample
  is negative; otherwise the sample goes into the ring of five, and the mean of the ring,
  clamped, is cached and returned. The sum of the ring is a \<^verbatim>\<open>uint32_t\<close> and wraps.
  The ring has five entries and the index stays below 5 (\<open>ring_well_formed\<close> below).
\<close>

definition position_sensor_read :: "system \<Rightarrow> u32 \<times> system" where
  "position_sensor_read s =
     (if \<not> sensor_initialized s then (0, s)
      else
        let (raw_value, s1) = adc1_get_raw s in
        if raw_value < 0 then (current_position s1, s1)
        else
          let buf = (filter_buffer s1)[filter_index s1 := word_of_int raw_value];
              idx = (filter_index s1 + 1) mod 5;
              adc_value = clamp_position (min_position s1) (max_position s1)
                            (sum_list buf div 5)
          in (adc_value,
              s1\<lparr>filter_buffer := buf, filter_index := idx,
                 current_position := adc_value\<rparr>))"

definition position_sensor_set_calibration :: "u32 \<Rightarrow> u32 \<Rightarrow> system \<Rightarrow> system" where
  "position_sensor_set_calibration min_pos max_pos s =
     (if min_pos \<ge> max_pos then s
      else s\<lparr>min_position := min_pos, max_position := max_pos, calibrated := True\<rparr>)"

definition position_sensor_is_calibrated :: "system \<Rightarrow> bool" where
  "position_sensor_is_calibrated s = calibrated s"

definition position_sensor_get_zebra_offset :: "system \<Rightarrow> u32" where
  "position_sensor_get_zebra_offset s = calibration_zebra_offset s"

definition position_sensor_get_min_position :: "system \<Rightarrow> u32" where
  "position_sensor_get_min_position s = min_position s"

definition position_sensor_get_max_position :: "system \<Rightarrow> u32" where
  "position_sensor_get_max_position s = max_position s"

text \<open>
  \<^verbatim>\<open>position_sensor_get_percentage\<close> returns a \<^verbatim>\<open>float\<close>; its one caller in the controller
  discards the result, so only its effect is kept: a read when calibrated, nothing
  otherwise.
\<close>

definition position_sensor_get_percentage :: "system \<Rightarrow> system" where
  "position_sensor_get_percentage s =
     (if \<not> calibrated s then s else snd (position_sensor_read s))"

text \<open>
  \<^verbatim>\<open>position_sensor_start_calibration\<close>: the zebra flag comes from the build; when the
  namespace opens (read-only), each of the three values is loaded or, if its key is
  missing, set to its default; when it does not open the statics keep their values.
  The step is reset to Upper and the description function is returned.
\<close>

definition position_sensor_start_calibration ::
  "sdkconfig \<Rightarrow> system \<Rightarrow> calibration_step_callback_t option \<times> system" where
  "position_sensor_start_calibration cfg s =
     (let s1 = s\<lparr>calibration_zebra_enabled := CONFIG_ZEBRA_BLINDS_SUPPORT cfg\<rparr>;
          s2 = (case (if nvs_fails s1 then None else nvs s1) of
                  None \<Rightarrow> s1
                | Some st \<Rightarrow>
                    s1\<lparr>calibration_upper_position :=
                         (case nvs_upper_position st of Some v \<Rightarrow> v | None \<Rightarrow> 0),
                       calibration_lower_position :=
                         (case nvs_lower_position st of Some v \<Rightarrow> v | None \<Rightarrow> 4095),
                       calibration_zebra_offset :=
                         (case nvs_zebra_offset st of Some v \<Rightarrow> v | None \<Rightarrow> 100)\<rparr>)
      in (Some get_calibration_step_description,
          s2\<lparr>current_calibration_step := CALIBRATION_STEP_UPPER\<rparr>))"

definition position_sensor_next_calibration_step ::
  "system \<Rightarrow> calibration_step_t \<times> system" where
  "position_sensor_next_calibration_step s =
     (if current_calibration_step s = CALIBRATION_STEP_COMPLETE
      then (CALIBRATION_STEP_COMPLETE, s)
      else
        let nxt = (case current_calibration_step s of
                     CALIBRATION_STEP_UPPER \<Rightarrow> CALIBRATION_STEP_LOWER
                   | CALIBRATION_STEP_LOWER \<Rightarrow>
                       (if calibration_zebra_enabled s then CALIBRATION_STEP_ZEBRA_OFFSET
                        else CALIBRATION_STEP_COMPLETE)
                   | CALIBRATION_STEP_ZEBRA_OFFSET \<Rightarrow> CALIBRATION_STEP_COMPLETE
                   | CALIBRATION_STEP_COMPLETE \<Rightarrow> CALIBRATION_STEP_COMPLETE)
        in (nxt, s\<lparr>current_calibration_step := nxt\<rparr>))"

text \<open>
  \<^verbatim>\<open>position_sensor_save_calibration_data\<close>: opens the namespace read-write (creating it
  when absent), returns if that fails, and writes the four fields. A failure of a single
  write is only logged by the source and is not modelled.
\<close>

definition position_sensor_save_calibration_data :: "system \<Rightarrow> system" where
  "position_sensor_save_calibration_data s =
     (if nvs_fails s then s else
     s\<lparr>nvs := Some \<lparr>nvs_upper_position = Some (calibration_upper_position s),
                    nvs_lower_position = Some (calibration_lower_position s),
                    nvs_zebra_offset = Some (calibration_zebra_offset s),
                    nvs_zebra_enabled = Some (if calibration_zebra_enabled s then 1 else 0)\<rparr>\<rparr>)"

definition position_sensor_save_calibration_step :: "u32 \<Rightarrow> system \<Rightarrow> system" where
  "position_sensor_save_calibration_step position s =
     (case current_calibration_step s of
        CALIBRATION_STEP_UPPER \<Rightarrow> s\<lparr>calibration_upper_position := position\<rparr>
      | CALIBRATION_STEP_LOWER \<Rightarrow>
          (let s1 = s\<lparr>calibration_lower_position := position\<rparr>
           in if calibration_upper_position s1 < calibration_lower_position s1
              then position_sensor_set_calibration
                     (calibration_upper_position s1) (calibration_lower_position s1) s1
              else s1)
      | CALIBRATION_STEP_ZEBRA_OFFSET \<Rightarrow> s\<lparr>calibration_zebra_offset := position\<rparr>
      | CALIBRATION_STEP_COMPLETE \<Rightarrow> position_sensor_save_calibration_data s)"

text \<open>Repeated calls: the values returned by \<open>n\<close> successive calls, in order.\<close>

fun next_calibration_steps :: "nat \<Rightarrow> system \<Rightarrow> calibration_step_t list \<times> system" where
  "next_calibration_steps 0 s = ([], s)"
| "next_calibration_steps (Suc n) s =
     (let (r, s1) = position_sensor_next_calibration_step s;
          (rs, s2) = next_calibration_steps n s1
      in (r # rs, s2))"

fun position_sensor_reads :: "nat \<Rightarrow> system \<Rightarrow> u32 list \<times> system" where
  "position_sensor_reads 0 s = ([], s)"
| "position_sensor_reads (Suc n) s =
     (let (v, s1) = position_sensor_read s;
          (vs, s2) = position_sensor_reads n s1
      in (v # vs, s2))"

definition ring_well_formed :: "system \<Rightarrow> bool" where
  "ring_well_formed s = (length (filter_buffer s) = 5 \<and> filter_index s < 5)"

text \<open>
  \<^verbatim>\<open>position_sensor_calibrate_start\<close>: the mean of ten reads is the minimum, the mean of
  ten more reads the maximum (the sums are \<^verbatim>\<open>uint32_t\<close>), and the pair goes to
  \<^verbatim>\<open>position_sensor_set_calibration\<close>. The waits are not part of the model.
\<close>

definition position_sensor_calibrate_start :: "system \<Rightarrow> system" where
  "position_sensor_calibrate_start s =
     (let (vs1, s1) = position_sensor_reads 10 s;
          min_val = sum_list vs1 div 10;
          (vs2, s2) = position_sensor_reads 10 s1;
          max_val = sum_list vs2 div 10
      in position_sensor_set_calibration min_val max_val s2)"

section \<open>Single-precision arithmetic\<close>

text \<open>
  The controller computes one target in \<^verbatim>\<open>float\<close>, IEEE 754 binary32 with rounding to
  nearest, ties to even. A value is a NaN, an infinity or a number, given by its real
  value; the two zeros are one value here, as nothing the controller does with a
  \<^verbatim>\<open>float\<close> tells them apart (it compares, multiplies, divides by 100 and converts to
  \<^verbatim>\<open>uint32_t\<close>).
\<close>

datatype float32 = NaN | PlusInf | MinusInf | Finite real

text \<open>Powers of two with an integer exponent.\<close>

definition pow2 :: "int \<Rightarrow> real" where
  "pow2 e = (if 0 \<le> e then 2 ^ nat e else 1 / 2 ^ nat (- e))"

text \<open>
  The exponent \<open>e\<close> of a positive number \<open>a\<close>, with \<open>2 ^ e \<le> a < 2 ^ (e + 1)\<close>;
  \<open>bitlen\<close> is the number of binary digits of an integer.
\<close>

definition binade :: "real \<Rightarrow> int" where
  "binade a = (if 1 \<le> a then bitlen \<lfloor>a\<rfloor> - 1 else - bitlen (\<lceil>1 / a\<rceil> - 1))"

definition round_half_even :: "real \<Rightarrow> int" where
  "round_half_even y =
     (let f = \<lfloor>y\<rfloor>; d = y - of_int f
      in if d < 1 / 2 then f else if 1 / 2 < d then f + 1 else if even f then f else f + 1)"

text \<open>
  Rounding a real number to binary32: 24 significant binary digits, the exponent not
  below -126 (subnormal numbers have the spacing of the smallest normal ones), and an
  infinity when the rounded magnitude reaches \<open>2 ^ 128\<close>.
\<close>

definition round32 :: "real \<Rightarrow> float32" where
  "round32 x =
     (if x = 0 then Finite 0
      else
        let a = \<bar>x\<bar>;
            ulp = pow2 (max (binade a) (- 126) - 23);
            r = of_int (round_half_even (a / ulp)) * ulp
        in if 2 ^ 128 \<le> r then (if x < 0 then MinusInf else PlusInf)
           else Finite (if x < 0 then - r else r))"

text \<open>The comparison \<^verbatim>\<open><\<close>: false when an operand is a NaN.\<close>

fun f32_less :: "float32 \<Rightarrow> float32 \<Rightarrow> bool" where
  "f32_less NaN y = False"
| "f32_less x NaN = False"
| "f32_less (Finite a) (Finite b) = (a < b)"
| "f32_less x MinusInf = False"
| "f32_less MinusInf y = True"
| "f32_less PlusInf y = False"
| "f32_less x PlusInf = True"

text \<open>The conversion of a \<^verbatim>\<open>uint32_t\<close> to \<^verbatim>\<open>float\<close>.\<close>

definition u32_to_f32 :: "u32 \<Rightarrow> float32" where
  "u32_to_f32 w = round32 (real (unat w))"

text \<open>
  The product: a NaN with a NaN operand and for zero times an infinity, an infinity of
  the sign of the product for an infinity times anything else, the rounded product of two
  numbers.
\<close>

fun f32_mul :: "float32 \<Rightarrow> float32 \<Rightarrow> float32" where
  "f32_mul NaN y = NaN"
| "f32_mul x NaN = NaN"
| "f32_mul (Finite a) (Finite b) = round32 (a * b)"
| "f32_mul (Finite a) y =
     (if a = 0 then NaN else if (0 < a) = (y = PlusInf) then PlusInf else MinusInf)"
| "f32_mul x (Finite b) =
     (if b = 0 then NaN else if (0 < b) = (x = PlusInf) then PlusInf else MinusInf)"
| "f32_mul x y = (if x = y then PlusInf else MinusInf)"

text \<open>The quotient by the constant \<^verbatim>\<open>100.0f\<close>.\<close>

fun f32_div_100 :: "float32 \<Rightarrow> float32" where
  "f32_div_100 (Finite a) = round32 (a / 100)"
| "f32_div_100 x = x"

text \<open>
  The conversion of a \<^verbatim>\<open>float\<close> to \<^verbatim>\<open>uint32_t\<close> drops the fraction. It is undefined
  (\<open>None\<close>) for a NaN, an infinity and a number whose integral part is not a
  \<^verbatim>\<open>uint32_t\<close>.
\<close>

fun f32_to_u32 :: "float32 \<Rightarrow> u32 option" where
  "f32_to_u32 (Finite v) =
     (if - 1 < v \<and> v < 2 ^ 32 then Some (word_of_int (if v < 0 then 0 else \<lfloor>v\<rfloor>))
      else None)"
| "f32_to_u32 x = None"

text \<open>
  Modelled from the spec: the clamp \<^verbatim>\<open>min(max(p, 0), 100)\<close>, for comparison with the
  controller's own. The minimum and the maximum of two \<^verbatim>\<open>float\<close>s are those of the C
  library (\<^verbatim>\<open>fminf\<close>, \<^verbatim>\<open>fmaxf\<close>: the other operand when one is a NaN).
\<close>

definition fmaxf :: "float32 \<Rightarrow> float32 \<Rightarrow> float32" where
  "fmaxf x y = (if x = NaN then y else if y = NaN then x else if f32_less x y then y else x)"

definition fminf :: "float32 \<Rightarrow> float32 \<Rightarrow> float32" where
  "fminf x y = (if x = NaN then y else if y = NaN then x else if f32_less y x then y else x)"

definition clamp_0_100 :: "float32 \<Rightarrow> float32" where
  "clamp_0_100 p = fminf (fmaxf p (Finite 0)) (Finite 100)"

section \<open>Motor driver\<close>

text \<open>
  Modelled from the spec: the functions of the motor driver. A command is appended to the
  commands received; a step command sets the moving flag, a stop command clears it, and
  the initialisation leaves both as they are.
\<close>

definition motor_control_init :: "system \<Rightarrow> system" where
  "motor_control_init s = s"

definition motor_is_moving :: "system \<Rightarrow> bool" where
  "motor_is_moving s = motor_moving s"

definition motor_stop :: "system \<Rightarrow> system" where
  "motor_stop s = s\<lparr>motor_moving := False, motor_commands := motor_commands s @ [Stop]\<rparr>"

definition motor_set_direction :: "motor_direction_t \<Rightarrow> system \<Rightarrow> system" where
  "motor_set_direction d s = s\<lparr>motor_commands := motor_commands s @ [SetDirection d]\<rparr>"

definition motor_set_speed :: "u32 \<Rightarrow> system \<Rightarrow> system" where
  "motor_set_speed v s = s\<lparr>motor_commands := motor_commands s @ [SetSpeed v]\<rparr>"

definition motor_step :: "u32 \<Rightarrow> system \<Rightarrow> system" where
  "motor_step n s = s\<lparr>motor_moving := True, motor_commands := motor_commands s @ [Step n]\<rparr>"

section \<open>Motion controller (\<^verbatim>\<open>controller.cpp\<close>)\<close>

definition controller_stop :: "system \<Rightarrow> system" where
  "controller_stop s =
     (let s1 = (if motor_is_moving s then motor_stop s else s)
      in s1\<lparr>g_config_state := IDLE, g_button_held := False\<rparr>)"

definition controller_check_boundaries_and_stop :: "system \<Rightarrow> bool \<times> system" where
  "controller_check_boundaries_and_stop s =
     (if \<not> position_sensor_is_calibrated s then (False, s)
      else
        let (current_pos, s1) = position_sensor_read s;
            min_pos = position_sensor_get_min_position s1;
            max_pos = position_sensor_get_max_position s1
        in if current_pos \<le> min_pos \<or> current_pos \<ge> max_pos
           then (True, controller_stop s1)
           else (False, s1))"

definition controller_move_to_position :: "sdkconfig \<Rightarrow> u32 \<Rightarrow> system \<Rightarrow> system" where
  "controller_move_to_position cfg position s =
     (if g_config_state s = CALIBRATING then s
      else
        let (current_pos, s1) = position_sensor_read s in
        if current_pos = position then s1
        else
          let direction = (if position > current_pos then MOTOR_DIR_DOWN else MOTOR_DIR_UP);
              s2 = motor_set_direction direction s1;
              position_diff = (if position > current_pos then position - current_pos
                               else current_pos - position);
              s3 = motor_set_speed (CONFIG_MOTOR_DEFAULT_SPEED cfg) s2;
              s4 = motor_step position_diff s3;
              s5 = s4\<lparr>g_config_state :=
                        (if direction = MOTOR_DIR_UP then MOVING_UP else MOVING_DOWN)\<rparr>;
              s6 = s5\<lparr>g_config_position_current_position := position\<rparr>
          in snd (controller_check_boundaries_and_stop s6))"

definition controller_move_up :: "sdkconfig \<Rightarrow> system \<Rightarrow> system" where
  "controller_move_up cfg s =
     (if g_config_state s = CALIBRATING then s
      else
        let s1 = motor_set_direction MOTOR_DIR_UP s;
            s2 = motor_set_speed (CONFIG_MOTOR_DEFAULT_SPEED cfg) s1;
            s3 = motor_step 0xFFFFFFFF s2
        in s3\<lparr>g_config_state := MOVING_UP\<rparr>)"

definition controller_move_down :: "sdkconfig \<Rightarrow> system \<Rightarrow> system" where
  "controller_move_down cfg s =
     (if g_config_state s = CALIBRATING then s
      else
        let s1 = motor_set_direction MOTOR_DIR_DOWN s;
            s2 = motor_set_speed (CONFIG_MOTOR_DEFAULT_SPEED cfg) s1;
            s3 = motor_step 0xFFFFFFFF s2
        in s3\<lparr>g_config_state := MOVING_DOWN\<rparr>)"

text \<open>
  \<^verbatim>\<open>controller_calibrate\<close>, statement by statement: the state is set to Calibrating,
  \<^verbatim>\<open>controller_stop\<close> runs, step calibration is started, and with the callback in hand
  \<^verbatim>\<open>position_sensor_next_calibration_step\<close> is called and the step it returns is prompted.
\<close>

definition controller_calibrate :: "sdkconfig \<Rightarrow> system \<Rightarrow> system" where
  "controller_calibrate cfg s =
     (let s1 = s\<lparr>g_config_state := CALIBRATING\<rparr>;
          s2 = controller_stop s1;
          (cb, s3) = position_sensor_start_calibration cfg s2;
          s4 = s3\<lparr>g_calibration_callback := cb\<rparr>
      in case g_calibration_callback s4 of
           None \<Rightarrow> s4
         | Some f \<Rightarrow>
             let (current_step, s5) = position_sensor_next_calibration_step s4
             in s5\<lparr>calibration_prompts := calibration_prompts s5 @ [current_step]\<rparr>)"

definition controller_goto_top :: "sdkconfig \<Rightarrow> system \<Rightarrow> system" where
  "controller_goto_top cfg s =
     (if position_sensor_is_calibrated s
      then controller_move_to_position cfg (position_sensor_get_min_position s) s
      else s)"

definition controller_goto_bottom :: "sdkconfig \<Rightarrow> system \<Rightarrow> system" where
  "controller_goto_bottom cfg s =
     (if position_sensor_is_calibrated s
      then controller_move_to_position cfg (position_sensor_get_max_position s) s
      else s)"

definition controller_get_state :: "system \<Rightarrow> state_t" where
  "controller_get_state s = g_config_state s"

definition controller_is_moving :: "system \<Rightarrow> bool" where
  "controller_is_moving s = motor_is_moving s"

text \<open>
  \<^verbatim>\<open>controller_set_position_percentage\<close>: the clamp of the \<^verbatim>\<open>float\<close> argument, then,
  when calibrated, two reads (one of them in \<^verbatim>\<open>position_sensor_get_percentage\<close>), the
  target \<^verbatim>\<open>min_pos + (uint32_t)(range * percentage / 100.0f)\<close> and the move. The result
  is \<open>None\<close> when the conversion to \<^verbatim>\<open>uint32_t\<close> is undefined.
\<close>

definition controller_set_position_percentage ::
  "sdkconfig \<Rightarrow> float32 \<Rightarrow> system \<Rightarrow> system option" where
  "controller_set_position_percentage cfg percentage s =
     (let percentage = (if f32_less percentage (Finite 0) then Finite 0 else percentage);
          percentage = (if f32_less (Finite 100) percentage then Finite 100 else percentage)
      in if position_sensor_is_calibrated s
         then
           let (current_pos, s1) = position_sensor_read s;
               s2 = position_sensor_get_percentage s1;
               min_pos = position_sensor_get_min_position s2;
               max_pos = position_sensor_get_max_position s2;
               range = max_pos - min_pos
           in case f32_to_u32 (f32_div_100 (f32_mul (u32_to_f32 range) percentage)) of
                None \<Rightarrow> None
              | Some offset \<Rightarrow>
                  (let target_position = min_pos + offset
                   in Some (controller_move_to_position cfg target_position s2))
         else Some s)"

text \<open>
  The target of the zebra-offset motion, from the position read, the offset and the
  function's static \<^verbatim>\<open>last_direction_up\<close>; the second component is the static afterwards.
  The bounds are the two constants the source assigns to \<^verbatim>\<open>min_pos\<close> and \<^verbatim>\<open>max_pos\<close>.
\<close>

definition zebra_target_pos :: "u32 \<Rightarrow> u32 \<Rightarrow> bool \<Rightarrow> u32 \<times> bool" where
  "zebra_target_pos current_pos zebra_offset last_up =
     (let min_pos = 0 :: u32;
          max_pos = 4095 :: u32;
          (target_pos, last_up') =
            (if current_pos \<le> min_pos + zebra_offset
             then (current_pos + zebra_offset, last_up)
             else if current_pos \<ge> max_pos - zebra_offset
             then (current_pos - zebra_offset, last_up)
             else ((if last_up then current_pos - zebra_offset
                    else current_pos + zebra_offset), \<not> last_up))
      in ((if target_pos < min_pos then min_pos
           else if target_pos > max_pos then max_pos
           else target_pos), last_up'))"

definition controller_handle_zebra_offset :: "sdkconfig \<Rightarrow> system \<Rightarrow> system" where
  "controller_handle_zebra_offset cfg s =
     (if \<not> position_sensor_is_calibrated s then s
      else
        let zebra_offset = position_sensor_get_zebra_offset s in
        if zebra_offset = 0 then s
        else
          let (current_pos, s1) = position_sensor_read s;
              (target_pos, last_up') =
                zebra_target_pos current_pos zebra_offset (last_direction_up s1);
              s2 = s1\<lparr>last_direction_up := last_up'\<rparr>
          in controller_move_to_position cfg target_pos s2)"

text \<open>
  \<^verbatim>\<open>controller_button_callback\<close>: one equation per case of the switch. A long press
  creates the boundary-check task when its handle is \<^verbatim>\<open>NULL\<close>; the task itself is
  \<open>boundary_check_task\<close> below. The double click of a build without zebra support asks
  for \<^verbatim>\<open>50.0f\<close> percent, for which the conversion is always defined
  (\<open>percentage_50_defined\<close> below).
\<close>

fun controller_button_callback ::
  "sdkconfig \<Rightarrow> button_event_t \<Rightarrow> button_id_t \<Rightarrow> system \<Rightarrow> system" where
  "controller_button_callback cfg BUTTON_EVENT_SIMULTANEOUS_PRESS button_id s =
     (if g_config_state s = CALIBRATING
      then controller_stop (s\<lparr>g_config_state := IDLE, g_calibration_callback := None\<rparr>)
      else controller_calibrate cfg s)"
| "controller_button_callback cfg BUTTON_SINGLE_CLICK button_id s =
     (if g_config_state s = CALIBRATING \<and> g_calibration_callback s \<noteq> None
      then
        let (current_position, s1) = position_sensor_read s;
            s2 = position_sensor_save_calibration_step current_position s1;
            (next_step, s3) = position_sensor_next_calibration_step s2
        in if next_step = CALIBRATION_STEP_COMPLETE
           then controller_stop (s3\<lparr>g_config_state := IDLE, g_calibration_callback := None\<rparr>)
           else s3\<lparr>calibration_prompts := calibration_prompts s3 @ [next_step]\<rparr>
      else (case button_id of
              BUTTON_ID_UP \<Rightarrow> controller_goto_top cfg s
            | BUTTON_ID_DOWN \<Rightarrow> controller_goto_bottom cfg s))"
| "controller_button_callback cfg BUTTON_DOUBLE_CLICK button_id s =
     (if g_config_state s \<noteq> CALIBRATING
      then
        if CONFIG_ZEBRA_BLINDS_SUPPORT cfg
        then
          if position_sensor_is_calibrated s \<and> position_sensor_get_zebra_offset s > 0
          then controller_handle_zebra_offset cfg s
          else s
        else (case controller_set_position_percentage cfg (Finite 50) s of
                Some s' \<Rightarrow> s'
              | None \<Rightarrow> s)
      else s)"
| "controller_button_callback cfg BUTTON_LONG_PRESS_START button_id s =
     (if g_config_state s \<noteq> CALIBRATING
      then
        let s1 = s\<lparr>g_button_held := True\<rparr>;
            s2 = (case button_id of
                    BUTTON_ID_UP \<Rightarrow> controller_move_up cfg s1
                  | BUTTON_ID_DOWN \<Rightarrow> controller_move_down cfg s1)
        in if \<not> g_boundary_check_task s2 then s2\<lparr>g_boundary_check_task := True\<rparr> else s2
      else s)"
| "controller_button_callback cfg BUTTON_PRESS_UP button_id s =
     (if g_button_held s then controller_stop s else s)"
| "controller_button_callback cfg _ button_id s = s"

text \<open>Events delivered one after the other, each with its button.\<close>

fun deliver :: "sdkconfig \<Rightarrow> (button_event_t \<times> button_id_t) list \<Rightarrow> system \<Rightarrow> system" where
  "deliver cfg [] s = s"
| "deliver cfg ((e, b) # es) s = deliver cfg es (controller_button_callback cfg e b s)"

text \<open>
  \<^verbatim>\<open>boundary_check_task\<close>: while the button is held and the motor moves, check the
  bounds and leave the loop at one, else \<^verbatim>\<open>vTaskDelay(pdMS_TO_TICKS(100))\<close> and go round
  again; after the loop the handle is cleared. The loop has no bound of its own, so the
  model counts the polls it may make: \<open>None\<close> means that the task is still polling after
  that many. With the state it ends in, the task returns the delays it has made, in
  ticks, one entry for each \<^verbatim>\<open>vTaskDelay\<close>.
\<close>

fun boundary_check_task :: "sdkconfig \<Rightarrow> nat \<Rightarrow> system \<Rightarrow> (system \<times> u32 list) option" where
  "boundary_check_task cfg polls s =
     (if g_button_held s \<and> motor_is_moving s
      then (case polls of
              0 \<Rightarrow> None
            | Suc n \<Rightarrow>
                let (hit, s1) = controller_check_boundaries_and_stop s
                in if hit then Some (s1\<lparr>g_boundary_check_task := False\<rparr>, [])
                   else (case boundary_check_task cfg n s1 of
                           None \<Rightarrow> None
                         | Some (s', delays) \<Rightarrow> Some (s', pdMS_TO_TICKS cfg 100 # delays)))
      else Some (s\<lparr>g_boundary_check_task := False\<rparr>, []))"

text \<open>
  The statics as the C++ initialisers leave them at power-on, for a given stream of raw
  samples and a given content of a store in working order, and \<^verbatim>\<open>controller_init\<close>.
  The two calls of \<^verbatim>\<open>controller_init\<close> into the button coordinator act on the
  coordinator's own statics, which are modelled apart from these.
\<close>

definition power_on :: "(nat \<Rightarrow> int) \<Rightarrow> nvs_store option \<Rightarrow> system" where
  "power_on adc store =
     \<lparr>min_position = 0, max_position = 0, current_position = 0, calibrated = False,
      sensor_initialized = False,
      current_calibration_step = CALIBRATION_STEP_COMPLETE,
      calibration_upper_position = 0, calibration_lower_position = 0,
      calibration_zebra_offset = 100, calibration_zebra_enabled = False,
      filter_buffer = [0, 0, 0, 0, 0], filter_index = 0,
      g_config_state = IDLE, g_config_auto_calibrate = False,
      g_config_position_current_position = 0,
      g_button_held = False, g_calibration_callback = None,
      g_boundary_check_task = False, last_direction_up = False,
      calibration_prompts = [],
      adc_samples = adc, adc_reads = 0, nvs = store, nvs_fails = False,
      motor_moving = False, motor_commands = []\<rparr>"

definition controller_init :: "system \<Rightarrow> system" where
  "controller_init s =
     (let s1 = motor_control_init s;
          s2 = position_sensor_init s1
      in s2\<lparr>g_config_state := IDLE,
            g_config_auto_calibrate := \<not> position_sensor_is_calibrated s2\<rparr>)"

section \<open>Button event coordinator (\<^verbatim>\<open>button_handler.cpp\<close>)\<close>

record button_event_msg_t =
  msg_event :: button_event_t
  msg_button_id :: button_id_t

text \<open>
  The queue is created with room for 10 messages. \<^verbatim>\<open>xQueueSend\<close> with a wait of 0 ticks
  and \<^verbatim>\<open>xQueueSendFromISR\<close> append the message when there is room and drop it otherwise.
\<close>

definition xQueueSend ::
  "button_event_msg_t list \<Rightarrow> button_event_msg_t \<Rightarrow> button_event_msg_t list" where
  "xQueueSend q m = (if length q < 10 then q @ [m] else q)"

text \<open>The six callbacks given to the debounce driver, and the message each one sends.\<close>

datatype button_cb =
    button_up_single_press_cb
  | button_up_double_press_cb
  | button_up_long_press_cb
  | button_down_single_press_cb
  | button_down_double_press_cb
  | button_down_long_press_cb

fun button_cb_msg :: "button_cb \<Rightarrow> button_event_msg_t" where
  "button_cb_msg button_up_single_press_cb =
     \<lparr>msg_event = BUTTON_SINGLE_CLICK, msg_button_id = BUTTON_ID_UP\<rparr>"
| "button_cb_msg button_up_double_press_cb =
     \<lparr>msg_event = BUTTON_DOUBLE_CLICK, msg_button_id = BUTTON_ID_UP\<rparr>"
| "button_cb_msg button_up_long_press_cb =
     \<lparr>msg_event = BUTTON_LONG_PRESS_START, msg_button_id = BUTTON_ID_UP\<rparr>"
| "button_cb_msg button_down_single_press_cb =
     \<lparr>msg_event = BUTTON_SINGLE_CLICK, msg_button_id = BUTTON_ID_DOWN\<rparr>"
| "button_cb_msg button_down_double_press_cb =
     \<lparr>msg_event = BUTTON_DOUBLE_CLICK, msg_button_id = BUTTON_ID_DOWN\<rparr>"
| "button_cb_msg button_down_long_press_cb =
     \<lparr>msg_event = BUTTON_LONG_PRESS_START, msg_button_id = BUTTON_ID_DOWN\<rparr>"

text \<open>
  The registrations that \<^verbatim>\<open>button_handler_init\<close> makes with \<^verbatim>\<open>iot_button_register_cb\<close>:
  button, driver event, callback.
\<close>

definition registered_callbacks :: "(button_id_t \<times> button_event_t \<times> button_cb) list" where
  "registered_callbacks =
     [(BUTTON_ID_UP, BUTTON_SINGLE_CLICK, button_up_single_press_cb),
      (BUTTON_ID_UP, BUTTON_DOUBLE_CLICK, button_up_double_press_cb),
      (BUTTON_ID_UP, BUTTON_LONG_PRESS_START, button_up_long_press_cb),
      (BUTTON_ID_DOWN, BUTTON_SINGLE_CLICK, button_down_single_press_cb),
      (BUTTON_ID_DOWN, BUTTON_DOUBLE_CLICK, button_down_double_press_cb),
      (BUTTON_ID_DOWN, BUTTON_LONG_PRESS_START, button_down_long_press_cb)]"

text \<open>
  Modelled from the spec: the debounce driver reports an event of a button by running
  the callbacks registered for it, each of which sends its message.
\<close>

definition iot_button_event ::
  "button_id_t \<Rightarrow> button_event_t \<Rightarrow> button_event_msg_t list \<Rightarrow> button_event_msg_t list" where
  "iot_button_event b e q =
     foldl xQueueSend q
       (map (\<lambda>(b', e', cb). button_cb_msg cb)
          (filter (\<lambda>(b', e', cb). b' = b \<and> e' = e) registered_callbacks))"

text \<open>The events that the driver reports, one after the other.\<close>

definition iot_button_events ::
  "(button_id_t \<times> button_event_t) list \<Rightarrow> button_event_msg_t list \<Rightarrow> button_event_msg_t list" where
  "iot_button_events evs q = foldl (\<lambda>q (b, e). iot_button_event b e q) q evs"

text \<open>
  \<^verbatim>\<open>button_handler_task\<close>: the consumer takes the messages off the queue in their order
  and calls the user callback with each, which \<^verbatim>\<open>controller_init\<close> has set to
  \<^verbatim>\<open>controller_button_callback\<close>. The model runs it over the messages pending.
\<close>

fun button_handler_task :: "sdkconfig \<Rightarrow> button_event_msg_t list \<Rightarrow> system \<Rightarrow> system" where
  "button_handler_task cfg [] s = s"
| "button_handler_task cfg (m # q) s =
     button_handler_task cfg q
       (controller_button_callback cfg (msg_event m) (msg_button_id m) s)"

text \<open>
  \<^verbatim>\<open>check_simultaneous_press_task\<close>. Its locals and the queue it sends to are the state;
  what one pass of its loop observes is the last event of each button
  (\<^verbatim>\<open>iot_button_get_event\<close>) and the tick count (\<^verbatim>\<open>xTaskGetTickCount\<close>). A pass is
  followed by a delay of 10 ms. The message has the event set and the button left at
  zero, which is \<^verbatim>\<open>BUTTON_ID_UP\<close>.
\<close>

record poller =
  both_pressed :: bool
  press_start_time :: u32
  g_button_event_queue :: "button_event_msg_t list"

record poll =
  up_event :: button_event_t
  down_event :: button_event_t
  tick_count :: u32

definition check_simultaneous_press_pass :: "sdkconfig \<Rightarrow> poll \<Rightarrow> poller \<Rightarrow> poller" where
  "check_simultaneous_press_pass cfg p t =
     (let simultaneous_threshold = pdMS_TO_TICKS cfg 100;
          up_pressed = (up_event p = BUTTON_PRESS_DOWN);
          down_pressed = (down_event p = BUTTON_PRESS_DOWN)
      in if up_pressed \<and> down_pressed \<and> \<not> both_pressed t
         then t\<lparr>both_pressed := True, press_start_time := tick_count p\<rparr>
         else if \<not> up_pressed \<or> \<not> down_pressed
         then
           (let t1 =
                  (if both_pressed t
                   then
                     (let press_duration = tick_count p - press_start_time t
                      in if press_duration < simultaneous_threshold
                         then t\<lparr>g_button_event_queue :=
                                  xQueueSend (g_button_event_queue t)
                                    \<lparr>msg_event = BUTTON_EVENT_SIMULTANEOUS_PRESS,
                                     msg_button_id = BUTTON_ID_UP\<rparr>\<rparr>
                         else t)
                   else t)
            in t1\<lparr>both_pressed := False\<rparr>)
         else t)"

text \<open>
  The loop of the task never ends; the model runs it over the passes observed so far.
\<close>

fun check_simultaneous_press_task :: "sdkconfig \<Rightarrow> poll list \<Rightarrow> poller \<Rightarrow> poller" where
  "check_simultaneous_press_task cfg [] t = t"
| "check_simultaneous_press_task cfg (p # ps) t =
     check_simultaneous_press_task cfg ps (check_simultaneous_press_pass cfg p t)"

text \<open>A pass sees both buttons held when the last event of each is a press.\<close>

definition both_down :: "poll \<Rightarrow> bool" where
  "both_down p = (up_event p = BUTTON_PRESS_DOWN \<and> down_event p = BUTTON_PRESS_DOWN)"

section \<open>Configurations and states used as examples\<close>

definition sdk_plain :: sdkconfig where
  "sdk_plain = \<lparr>CONFIG_ZEBRA_BLINDS_SUPPORT = False, CONFIG_MOTOR_DEFAULT_SPEED = 1000,
                 CONFIG_FREERTOS_HZ = 100\<rparr>"

definition sdk_zebra :: sdkconfig where
  "sdk_zebra = \<lparr>CONFIG_ZEBRA_BLINDS_SUPPORT = True, CONFIG_MOTOR_DEFAULT_SPEED = 1000,
                 CONFIG_FREERTOS_HZ = 100\<rparr>"

definition adc_constant :: "int \<Rightarrow> nat \<Rightarrow> int" where
  "adc_constant v n = v"

definition boot :: "(nat \<Rightarrow> int) \<Rightarrow> nvs_store option \<Rightarrow> system" where
  "boot adc store = controller_init (power_on adc store)"

text \<open>
  Calibrated by \<^verbatim>\<open>position_sensor_calibrate_start\<close> while the samples go from 500 (the
  first ten) to 3000 (the next ten); every sample after that is a failed one.
\<close>

definition adc_rising_then_failing :: "nat \<Rightarrow> int" where
  "adc_rising_then_failing n = (if n < 10 then 500 else if n < 20 then 3000 else - 1)"

definition calibrated_while_rising :: system where
  "calibrated_while_rising =
     position_sensor_calibrate_start
       (position_sensor_init (power_on adc_rising_then_failing None))"

text \<open>In the middle of a guided calibration, the upper stop captured at 100.\<close>

definition awaiting_lower :: system where
  "awaiting_lower =
     (boot (adc_constant 2000) None)
       \<lparr>current_calibration_step := CALIBRATION_STEP_LOWER,
        calibration_upper_position := 100\<rparr>"

text \<open>
  Calibrated to 100..3900 and read once (a good sample); the samples that follow are a
  failed one and then good ones again.
\<close>

definition adc_one_failure :: "nat \<Rightarrow> int" where
  "adc_one_failure n = (if n = 1 then - 1 else 2000)"

definition calibrated_and_read :: system where
  "calibrated_and_read =
     snd (position_sensor_read
            (position_sensor_set_calibration 100 3900
               (position_sensor_init (power_on adc_one_failure None))))"

text \<open>
  Calibrated to 100..3900, the ring full of samples of 2000, and a long press of the down
  button under way while the samples are 4095 from then on: the readings rise by 419 a
  poll and reach the maximum at the fifth.
\<close>

definition adc_running_down :: "nat \<Rightarrow> int" where
  "adc_running_down n = (if n < 5 then 2000 else 4095)"

definition held_towards_bottom :: system where
  "held_towards_bottom =
     controller_button_callback sdk_plain BUTTON_LONG_PRESS_START BUTTON_ID_DOWN
       (snd (position_sensor_reads 5
               (position_sensor_set_calibration 100 3900 (boot adc_running_down None))))"

text \<open>Calibrated to 0..16777217 through the setter.\<close>

definition calibrated_wide :: system where
  "calibrated_wide =
     position_sensor_set_calibration 0 16777217 (boot (adc_constant 2000) None)"

text \<open>The poller before any press, its queue full of ten single clicks.\<close>

definition poller_queue_full :: poller where
  "poller_queue_full =
     \<lparr>both_pressed = False, press_start_time = 0,
      g_button_event_queue = replicate 10 (button_cb_msg button_up_single_press_cb)\<rparr>"

text \<open>Calibrated to 100..3900 and at rest at position 3850, the zebra offset at 100.\<close>

definition near_bottom :: system where
  "near_bottom =
     snd (position_sensor_reads 5
            (position_sensor_set_calibration 100 3900 (boot (adc_constant 3850) None)))"

text \<open>
  The poller before any press, and what it observes at 100 ticks per second (a pass
  every tick): both buttons pressed from tick \<open>start\<close> on for \<open>n\<close> passes, both released
  at the next pass, and two more passes with nothing pressed.
\<close>

definition poller_at_rest :: poller where
  "poller_at_rest = \<lparr>both_pressed = False, press_start_time = 0, g_button_event_queue = []\<rparr>"

definition pass_held :: "nat \<Rightarrow> poll" where
  "pass_held tick =
     \<lparr>up_event = BUTTON_PRESS_DOWN, down_event = BUTTON_PRESS_DOWN,
      tick_count = word_of_nat tick\<rparr>"

definition pass_released :: "nat \<Rightarrow> poll" where
  "pass_released tick =
     \<lparr>up_event = BUTTON_PRESS_UP, down_event = BUTTON_PRESS_UP,
      tick_count = word_of_nat tick\<rparr>"

definition passes_held :: "nat \<Rightarrow> nat \<Rightarrow> poll list" where
  "passes_held start n = map (\<lambda>k. pass_held (start + k)) [0..<n]"

definition passes_after :: "nat \<Rightarrow> poll list" where
  "passes_after tick =
     [\<lparr>up_event = BUTTON_SINGLE_CLICK, down_event = BUTTON_SINGLE_CLICK,
       tick_count = word_of_nat (tick + 1)\<rparr>,
      \<lparr>up_event = BUTTON_NONE_PRESS, down_event = BUTTON_NONE_PRESS,
       tick_count = word_of_nat (tick + 2)\<rparr>]"

text \<open>Calibrated to 100..3900, at rest, the ring full of samples of 2000.\<close>

definition calibrated_at_rest :: system where
  "calibrated_at_rest =
     snd (position_sensor_reads 5
            (position_sensor_set_calibration 100 3900 (boot (adc_constant 2000) None)))"

section \<open>Unfolding rules\<close>

lemmas sensor_defs =
  position_sensor_init_def adc1_get_raw_def clamp_position_def position_sensor_read_def
  position_sensor_set_calibration_def position_sensor_is_calibrated_def
  position_sensor_get_zebra_offset_def position_sensor_get_min_position_def
  position_sensor_get_max_position_def position_sensor_get_percentage_def
  position_sensor_start_calibration_def position_sensor_next_calibration_step_def
  position_sensor_save_calibration_data_def position_sensor_save_calibration_step_def

lemmas motor_defs =
  motor_control_init_def motor_is_moving_def motor_stop_def motor_set_direction_def
  motor_set_speed_def motor_step_def

lemmas controller_defs =
  controller_stop_def controller_check_boundaries_and_stop_def
  controller_move_to_position_def controller_move_up_def controller_move_down_def
  controller_calibrate_def controller_goto_top_def controller_goto_bottom_def
  controller_get_state_def controller_is_moving_def zebra_target_pos_def
  controller_handle_zebra_offset_def controller_init_def power_on_def

lemma position_sensor_reads_numeral:
  "position_sensor_reads (numeral k) s =
     (let (v, s1) = position_sensor_read s;
          (vs, s2) = position_sensor_reads (pred_numeral k) s1
      in (v # vs, s2))"
  by (simp add: numeral_eq_Suc)

section \<open>The calibration step sequence\<close>

lemma next_steps_complete:
  "current_calibration_step s = CALIBRATION_STEP_COMPLETE \<Longrightarrow>
   next_calibration_steps n s = (replicate n CALIBRATION_STEP_COMPLETE, s)"
  by (induction n) (simp_all add: position_sensor_next_calibration_step_def)

lemma start_calibration_step:
  "current_calibration_step (snd (position_sensor_start_calibration cfg s)) =
     CALIBRATION_STEP_UPPER"
  "calibration_zebra_enabled (snd (position_sensor_start_calibration cfg s)) =
     CONFIG_ZEBRA_BLINDS_SUPPORT cfg"
  by (simp_all add: position_sensor_start_calibration_def Let_def split: option.splits)

lemma next_steps_from_upper:
  assumes "current_calibration_step s = CALIBRATION_STEP_UPPER"
  shows "fst (next_calibration_steps (Suc 0) s) = [CALIBRATION_STEP_LOWER]"
    and "\<not> calibration_zebra_enabled s \<Longrightarrow>
         fst (next_calibration_steps (Suc (Suc n)) s) =
           [CALIBRATION_STEP_LOWER, CALIBRATION_STEP_COMPLETE] @
           replicate n CALIBRATION_STEP_COMPLETE"
    and "calibration_zebra_enabled s \<Longrightarrow>
         fst (next_calibration_steps (Suc (Suc 0)) s) =
           [CALIBRATION_STEP_LOWER, CALIBRATION_STEP_ZEBRA_OFFSET]"
    and "calibration_zebra_enabled s \<Longrightarrow>
         fst (next_calibration_steps (Suc (Suc (Suc n))) s) =
           [CALIBRATION_STEP_LOWER, CALIBRATION_STEP_ZEBRA_OFFSET, CALIBRATION_STEP_COMPLETE] @
           replicate n CALIBRATION_STEP_COMPLETE"
  using assms
  by (simp_all add: position_sensor_next_calibration_step_def next_steps_complete)

text \<open>
  C8. After \<^verbatim>\<open>position_sensor_start_calibration\<close> the step is Upper. The calls of
  \<^verbatim>\<open>position_sensor_next_calibration_step\<close> that follow move it to Lower and then, in a
  build without zebra support, to Complete, and in a build with it to ZebraOffset and
  then to Complete; each call returns the step it has moved to, and every further call
  (\<open>n\<close> of them, for any \<open>n\<close>) returns Complete.
\<close>

theorem calibration_step_sequence:
  "current_calibration_step (snd (position_sensor_start_calibration cfg s)) =
     CALIBRATION_STEP_UPPER \<and>
   fst (next_calibration_steps 1 (snd (position_sensor_start_calibration cfg s))) =
     [CALIBRATION_STEP_LOWER] \<and>
   (if CONFIG_ZEBRA_BLINDS_SUPPORT cfg
    then fst (next_calibration_steps 2 (snd (position_sensor_start_calibration cfg s))) =
           [CALIBRATION_STEP_LOWER, CALIBRATION_STEP_ZEBRA_OFFSET] \<and>
         fst (next_calibration_steps (3 + n) (snd (position_sensor_start_calibration cfg s))) =
           [CALIBRATION_STEP_LOWER, CALIBRATION_STEP_ZEBRA_OFFSET, CALIBRATION_STEP_COMPLETE] @
           replicate n CALIBRATION_STEP_COMPLETE
    else fst (next_calibration_steps (2 + n) (snd (position_sensor_start_calibration cfg s))) =
           [CALIBRATION_STEP_LOWER, CALIBRATION_STEP_COMPLETE] @
           replicate n CALIBRATION_STEP_COMPLETE)"
  by (simp add: start_calibration_step next_steps_from_upper numeral_2_eq_2 numeral_3_eq_3
        del: next_calibration_steps.simps)

section \<open>Saving the lower stop\<close>

text \<open>
  C9. \<^verbatim>\<open>position_sensor_save_calibration_step\<close> at step Lower stores the position as the
  lower one; when the upper position is below it, the pair becomes the calibration
  (minimum, maximum, calibrated flag set), and when it is not, nothing but the stored lower
  position changes, so bounds and flag are as before. In both cases the next call of
  \<^verbatim>\<open>position_sensor_next_calibration_step\<close> advances the step.
\<close>

theorem save_step_lower:
  "current_calibration_step s = CALIBRATION_STEP_LOWER \<Longrightarrow>
   position_sensor_save_calibration_step position s =
     (if calibration_upper_position s < position
      then s\<lparr>calibration_lower_position := position,
             min_position := calibration_upper_position s,
             max_position := position, calibrated := True\<rparr>
      else s\<lparr>calibration_lower_position := position\<rparr>) \<and>
   fst (position_sensor_next_calibration_step
          (position_sensor_save_calibration_step position s)) =
     (if calibration_zebra_enabled s then CALIBRATION_STEP_ZEBRA_OFFSET
      else CALIBRATION_STEP_COMPLETE)"
  by (simp add: position_sensor_save_calibration_step_def position_sensor_set_calibration_def
        position_sensor_next_calibration_step_def Let_def not_le)

theorem save_step_lower_witness:
  "current_calibration_step awaiting_lower = CALIBRATION_STEP_LOWER \<and>
   calibrated (position_sensor_save_calibration_step 3900 awaiting_lower) \<and>
   min_position (position_sensor_save_calibration_step 3900 awaiting_lower) = 100 \<and>
   max_position (position_sensor_save_calibration_step 3900 awaiting_lower) = 3900 \<and>
   \<not> calibrated (position_sensor_save_calibration_step 100 awaiting_lower) \<and>
   calibration_lower_position (position_sensor_save_calibration_step 100 awaiting_lower) = 100 \<and>
   fst (position_sensor_next_calibration_step
          (position_sensor_save_calibration_step 100 awaiting_lower)) =
     CALIBRATION_STEP_COMPLETE"
proof -
  have step: "current_calibration_step awaiting_lower = CALIBRATION_STEP_LOWER"
    by (simp add: awaiting_lower_def)
  have rest: "calibration_upper_position awaiting_lower = 100"
    "\<not> calibrated awaiting_lower" "\<not> calibration_zebra_enabled awaiting_lower"
    by (simp_all add: awaiting_lower_def boot_def controller_init_def power_on_def
          motor_control_init_def position_sensor_init_def position_sensor_is_calibrated_def)
  from save_step_lower [OF step, of 3900, THEN conjunct1] rest
  have hi: "position_sensor_save_calibration_step 3900 awaiting_lower =
              awaiting_lower\<lparr>calibration_lower_position := 3900, min_position := 100,
                               max_position := 3900, calibrated := True\<rparr>"
    by simp
  from save_step_lower [OF step, of 100, THEN conjunct1] rest
  have lo: "position_sensor_save_calibration_step 100 awaiting_lower =
              awaiting_lower\<lparr>calibration_lower_position := 100\<rparr>"
    by simp
  from save_step_lower [OF step, of 100, THEN conjunct2] rest
  have adv: "fst (position_sensor_next_calibration_step
                     (position_sensor_save_calibration_step 100 awaiting_lower)) =
              CALIBRATION_STEP_COMPLETE"
    by simp
  from step rest adv show ?thesis
    unfolding hi lo by simp
qed

section \<open>Reads and the calibrated bounds\<close>

lemma clamp_position_bounds:
  "lo \<le> hi \<Longrightarrow> lo \<le> clamp_position lo hi v \<and> clamp_position lo hi v \<le> hi"
  by (auto simp: clamp_position_def)

lemma position_sensor_read_keeps:
  "min_position (snd (position_sensor_read s)) = min_position s"
  "max_position (snd (position_sensor_read s)) = max_position s"
  "sensor_initialized (snd (position_sensor_read s)) = sensor_initialized s"
  "calibrated (snd (position_sensor_read s)) = calibrated s"
  by (simp_all add: position_sensor_read_def adc1_get_raw_def Let_def)

lemma position_sensor_read_bounds:
  assumes "sensor_initialized s"
    and "min_position s \<le> current_position s" and "current_position s \<le> max_position s"
  shows "min_position s \<le> fst (position_sensor_read s)"
    and "fst (position_sensor_read s) \<le> max_position s"
    and "min_position s \<le> current_position (snd (position_sensor_read s))"
    and "current_position (snd (position_sensor_read s)) \<le> max_position s"
proof -
  from assms have "min_position s \<le> max_position s" by simp
  from clamp_position_bounds [OF this] assms
  show "min_position s \<le> fst (position_sensor_read s)"
    and "fst (position_sensor_read s) \<le> max_position s"
    and "min_position s \<le> current_position (snd (position_sensor_read s))"
    and "current_position (snd (position_sensor_read s)) \<le> max_position s"
    by (simp_all add: position_sensor_read_def adc1_get_raw_def Let_def)
qed

text \<open>
  The bounds are ordered from initialisation on: the setter keeps them so, and a read
  leaves them alone and, when the sample is good, caches a value between them.
\<close>

lemma bounds_ordered:
  "min_position (position_sensor_init s) < max_position (position_sensor_init s)"
  "min_position s < max_position s \<Longrightarrow>
   min_position (position_sensor_set_calibration lo hi s) <
   max_position (position_sensor_set_calibration lo hi s)"
  by (simp_all add: position_sensor_init_def position_sensor_set_calibration_def not_le)

lemma good_read_caches_within_bounds:
  "sensor_initialized s \<Longrightarrow> min_position s \<le> max_position s \<Longrightarrow>
   0 \<le> adc_samples s (adc_reads s) \<Longrightarrow>
   min_position s \<le> current_position (snd (position_sensor_read s)) \<and>
   current_position (snd (position_sensor_read s)) \<le> max_position s \<and>
   fst (position_sensor_read s) = current_position (snd (position_sensor_read s))"
  using clamp_position_bounds [of "min_position s" "max_position s"]
  by (simp add: position_sensor_read_def adc1_get_raw_def Let_def)

lemma ring_stays_well_formed:
  "ring_well_formed (position_sensor_init (power_on adc store))"
  "ring_well_formed s \<Longrightarrow> ring_well_formed (snd (position_sensor_read s))"
  by (simp_all add: ring_well_formed_def position_sensor_init_def power_on_def
        position_sensor_read_def adc1_get_raw_def Let_def)

text \<open>
  C3, as the code has it. On an initialised, calibrated sensor whose cached position lies
  within the bounds (as it does after any read of a good sample under these bounds),
  every value returned by a sequence of reads lies within the bounds, whatever the raw
  samples are, negative ones included.
\<close>

theorem reads_within_bounds:
  "sensor_initialized s \<Longrightarrow> calibrated s \<Longrightarrow>
   min_position s \<le> current_position s \<Longrightarrow> current_position s \<le> max_position s \<Longrightarrow>
   \<forall>v \<in> set (fst (position_sensor_reads n s)). min_position s \<le> v \<and> v \<le> max_position s"
proof (induction n arbitrary: s)
  case 0
  then show ?case by simp
next
  case (Suc n)
  let ?s1 = "snd (position_sensor_read s)"
  from Suc.prems have here:
    "min_position s \<le> fst (position_sensor_read s)"
    "fst (position_sensor_read s) \<le> max_position s"
    and cache: "min_position ?s1 \<le> current_position ?s1"
      "current_position ?s1 \<le> max_position ?s1"
    by (simp_all add: position_sensor_read_bounds position_sensor_read_keeps)
  from Suc.prems have "sensor_initialized ?s1" "calibrated ?s1"
    by (simp_all add: position_sensor_read_keeps)
  from Suc.IH [OF this cache]
  have "\<forall>v \<in> set (fst (position_sensor_reads n ?s1)).
          min_position s \<le> v \<and> v \<le> max_position s"
    by (simp add: position_sensor_read_keeps)
  with here show ?case
    by (simp add: split_beta)
qed

lemma length_position_sensor_reads: "length (fst (position_sensor_reads n s)) = n"
  by (induction n arbitrary: s) (simp_all add: split_beta)

theorem reads_within_bounds_witness:
  "sensor_initialized calibrated_and_read \<and> calibrated calibrated_and_read \<and>
   min_position calibrated_and_read \<le> current_position calibrated_and_read \<and>
   current_position calibrated_and_read \<le> max_position calibrated_and_read \<and>
   adc_samples calibrated_and_read (adc_reads calibrated_and_read) < 0 \<and>
   min_position calibrated_and_read \<le> fst (position_sensor_reads 3 calibrated_and_read) ! 0 \<and>
   fst (position_sensor_reads 3 calibrated_and_read) ! 0 \<le> max_position calibrated_and_read"
proof -
  have hyps: "sensor_initialized calibrated_and_read" "calibrated calibrated_and_read"
    "min_position calibrated_and_read \<le> current_position calibrated_and_read"
    "current_position calibrated_and_read \<le> max_position calibrated_and_read"
    and failing: "adc_samples calibrated_and_read (adc_reads calibrated_and_read) < 0"
    by (simp_all add: calibrated_and_read_def adc_one_failure_def power_on_def sensor_defs Let_def)
  have "fst (position_sensor_reads 3 calibrated_and_read) ! 0
          \<in> set (fst (position_sensor_reads 3 calibrated_and_read))"
    by (rule nth_mem) (simp add: length_position_sensor_reads)
  with reads_within_bounds [OF hyps, of 3] hyps failing show ?thesis
    by blast
qed

lemma calibrated_while_rising_state:
  "calibrated_while_rising =
     (power_on adc_rising_then_failing None)
       \<lparr>min_position := 400, max_position := 2500, current_position := 3000,
        calibrated := True, sensor_initialized := True,
        filter_buffer := [3000, 3000, 3000, 3000, 3000], filter_index := 0,
        adc_reads := 20\<rparr>"
  by (simp add: calibrated_while_rising_def position_sensor_calibrate_start_def
        adc_rising_then_failing_def power_on_def sensor_defs position_sensor_reads_numeral
        Let_def)

text \<open>
  C3 as stated fails. \<^verbatim>\<open>position_sensor_calibrate_start\<close>, run while the samples rise
  from 500 to 3000, sets the bounds to the means 400 and 2500 of its reads and leaves the
  last read, 3000, in the cache; the next read, of a negative sample, returns that 3000,
  above the maximum.
\<close>

theorem read_recovery_counterexample:
  "sensor_initialized calibrated_while_rising \<and> calibrated calibrated_while_rising \<and>
   min_position calibrated_while_rising = 400 \<and>
   max_position calibrated_while_rising = 2500 \<and>
   adc_samples calibrated_while_rising (adc_reads calibrated_while_rising) < 0 \<and>
   fst (position_sensor_read calibrated_while_rising) = 3000 \<and>
   \<not> (min_position calibrated_while_rising \<le> fst (position_sensor_read calibrated_while_rising) \<and>
      fst (position_sensor_read calibrated_while_rising) \<le> max_position calibrated_while_rising)"
  by (simp add: calibrated_while_rising_state adc_rising_then_failing_def power_on_def
        position_sensor_read_def adc1_get_raw_def)

section \<open>Entering calibration\<close>

text \<open>
  What \<^verbatim>\<open>controller_calibrate\<close> leaves behind, in any state: \<^verbatim>\<open>controller_stop\<close> runs
  after the state was set to Calibrating and sets it to Idle; the step has been advanced
  once, from Upper to Lower, before the first prompt.
\<close>

lemma controller_calibrate_result:
  "g_config_state (controller_calibrate cfg s) = IDLE"
  "current_calibration_step (controller_calibrate cfg s) = CALIBRATION_STEP_LOWER"
  "calibration_prompts (controller_calibrate cfg s) =
     calibration_prompts s @ [CALIBRATION_STEP_LOWER]"
  "calibrated (controller_calibrate cfg s) = calibrated s"
  "adc_reads (controller_calibrate cfg s) = adc_reads s"
  by (simp_all add: controller_calibrate_def controller_stop_def motor_defs
        position_sensor_start_calibration_def position_sensor_next_calibration_step_def
        Let_def split: option.splits)

lemma boot_state:
  "g_config_state (boot adc store) = IDLE" "\<not> calibrated (boot adc store)"
  "calibration_prompts (boot adc store) = []" "adc_reads (boot adc store) = 0"
  by (simp_all add: boot_def controller_init_def power_on_def motor_control_init_def
        position_sensor_init_def position_sensor_is_calibrated_def)

text \<open>
  C1, evaluated. From the Idle state after boot, whatever the build, the samples and the
  store, a SimultaneousPress leaves the controller in Idle, not in Calibrating, with the
  step at Lower and Lower as the one prompt given.
\<close>

theorem simultaneous_press_from_idle:
  "controller_get_state (boot adc store) = IDLE \<and>
   controller_get_state
     (controller_button_callback cfg BUTTON_EVENT_SIMULTANEOUS_PRESS b (boot adc store)) =
     IDLE \<and>
   current_calibration_step
     (controller_button_callback cfg BUTTON_EVENT_SIMULTANEOUS_PRESS b (boot adc store)) =
     CALIBRATION_STEP_LOWER \<and>
   calibration_prompts
     (controller_button_callback cfg BUTTON_EVENT_SIMULTANEOUS_PRESS b (boot adc store)) =
     [CALIBRATION_STEP_LOWER]"
  by (simp add: boot_state controller_get_state_def controller_calibrate_result)

section \<open>Guided calibration from boot\<close>

lemma single_click_uncalibrated:
  "g_config_state s \<noteq> CALIBRATING \<Longrightarrow> \<not> calibrated s \<Longrightarrow>
   controller_button_callback cfg BUTTON_SINGLE_CLICK b s = s"
  by (cases b) (simp_all add: controller_goto_top_def controller_goto_bottom_def
                   position_sensor_is_calibrated_def)

lemma single_clicks_uncalibrated:
  "g_config_state s \<noteq> CALIBRATING \<Longrightarrow> \<not> calibrated s \<Longrightarrow>
   deliver cfg (map (Pair BUTTON_SINGLE_CLICK) bs) s = s"
  by (induction bs)
     (simp_all add: single_click_uncalibrated del: controller_button_callback.simps)

text \<open>
  From any uncalibrated state outside Calibrating, a SimultaneousPress followed by any
  number of SingleClicks captures nothing: each click finds the controller in Idle and is
  taken as a request to go to the top or the bottom, which an uncalibrated sensor refuses.
\<close>

lemma guided_calibration_never_commits:
  "\<not> calibrated s \<Longrightarrow> g_config_state s \<noteq> CALIBRATING \<Longrightarrow>
   \<not> position_sensor_is_calibrated
       (deliver cfg
          ((BUTTON_EVENT_SIMULTANEOUS_PRESS, b) # map (Pair BUTTON_SINGLE_CLICK) bs) s)"
  using single_clicks_uncalibrated [of "controller_calibrate cfg s" cfg bs]
  by (simp add: controller_calibrate_result position_sensor_is_calibrated_def)

lemma guided_calibration_reads_nothing:
  "\<not> calibrated s \<Longrightarrow> g_config_state s \<noteq> CALIBRATING \<Longrightarrow>
   adc_reads
     (deliver cfg
        ((BUTTON_EVENT_SIMULTANEOUS_PRESS, b) # map (Pair BUTTON_SINGLE_CLICK) bs) s) =
   adc_reads s"
  using single_clicks_uncalibrated [of "controller_calibrate cfg s" cfg bs]
  by (simp add: controller_calibrate_result)

text \<open>
  C2, evaluated. After boot, whatever the build, the samples that the sensor would
  deliver and the store, a SimultaneousPress and two SingleClicks (of either button) leave
  the sensor uncalibrated, and not a single sample has been read: no position, 100 and
  3900 or other, is captured.
\<close>

theorem guided_calibration_from_boot:
  "\<not> position_sensor_is_calibrated (boot adc store) \<and>
   \<not> position_sensor_is_calibrated
       (deliver cfg
          [(BUTTON_EVENT_SIMULTANEOUS_PRESS, b), (BUTTON_SINGLE_CLICK, b1),
           (BUTTON_SINGLE_CLICK, b2)]
          (boot adc store)) \<and>
   adc_reads
       (deliver cfg
          [(BUTTON_EVENT_SIMULTANEOUS_PRESS, b), (BUTTON_SINGLE_CLICK, b1),
           (BUTTON_SINGLE_CLICK, b2)]
          (boot adc store)) = 0"
  using guided_calibration_never_commits [of "boot adc store" cfg b "[b1, b2]"]
    guided_calibration_reads_nothing [of "boot adc store" cfg b "[b1, b2]"]
  by (simp add: boot_state position_sensor_is_calibrated_def
        del: controller_button_callback.simps)

section \<open>The boundary-check task\<close>

lemma position_sensor_read_keeps_controller:
  "motor_moving (snd (position_sensor_read s)) = motor_moving s"
  "motor_commands (snd (position_sensor_read s)) = motor_commands s"
  "g_button_held (snd (position_sensor_read s)) = g_button_held s"
  by (simp_all add: position_sensor_read_def adc1_get_raw_def Let_def)

lemma check_inside_bounds:
  "position_sensor_is_calibrated s \<Longrightarrow>
   min_position s < fst (position_sensor_read s) \<Longrightarrow>
   fst (position_sensor_read s) < max_position s \<Longrightarrow>
   controller_check_boundaries_and_stop s = (False, snd (position_sensor_read s))"
  by (simp add: controller_check_boundaries_and_stop_def position_sensor_get_min_position_def
        position_sensor_get_max_position_def position_sensor_read_keeps split_beta not_le)

lemma check_at_bound:
  "position_sensor_is_calibrated s \<Longrightarrow>
   fst (position_sensor_read s) \<le> min_position s \<or>
   max_position s \<le> fst (position_sensor_read s) \<Longrightarrow>
   controller_check_boundaries_and_stop s = (True, controller_stop (snd (position_sensor_read s)))"
  by (simp add: controller_check_boundaries_and_stop_def position_sensor_get_min_position_def
        position_sensor_get_max_position_def position_sensor_read_keeps split_beta)

declare boundary_check_task.simps [simp del]

lemma boundary_task_out_of_polls:
  "g_button_held s \<Longrightarrow> motor_is_moving s \<Longrightarrow> boundary_check_task cfg 0 s = None"
  by (subst boundary_check_task.simps) simp

lemma boundary_task_hit:
  "g_button_held s \<Longrightarrow> motor_is_moving s \<Longrightarrow>
   controller_check_boundaries_and_stop s = (True, s1) \<Longrightarrow>
   boundary_check_task cfg (Suc n) s = Some (s1\<lparr>g_boundary_check_task := False\<rparr>, [])"
  by (subst boundary_check_task.simps) simp

lemma boundary_task_again:
  "g_button_held s \<Longrightarrow> motor_is_moving s \<Longrightarrow>
   controller_check_boundaries_and_stop s = (False, s1) \<Longrightarrow>
   boundary_check_task cfg (Suc n) s =
     (case boundary_check_task cfg n s1 of
        None \<Rightarrow> None
      | Some (s', delays) \<Rightarrow> Some (s', pdMS_TO_TICKS cfg 100 # delays))"
  by (subst boundary_check_task.simps) simp

lemma boundary_task_run:
  assumes "g_button_held s" "motor_is_moving s" "position_sensor_is_calibrated s"
    and "\<forall>v \<in> set (fst (position_sensor_reads k s)). min_position s < v \<and> v < max_position s"
    and "fst (position_sensor_read (snd (position_sensor_reads k s))) \<le> min_position s \<or>
         max_position s \<le> fst (position_sensor_read (snd (position_sensor_reads k s)))"
  shows "boundary_check_task cfg (Suc (k + n)) s =
           Some ((controller_stop (snd (position_sensor_read (snd (position_sensor_reads k s)))))
                   \<lparr>g_boundary_check_task := False\<rparr>,
                 replicate k (pdMS_TO_TICKS cfg 100))"
    and "m \<le> k \<Longrightarrow> boundary_check_task cfg m s = None"
  using assms
proof (induction k arbitrary: s m)
  case 0
  {
    case 1
    then show ?case by (simp add: boundary_task_hit check_at_bound)
  next
    case 2
    then show ?case by (simp add: boundary_task_out_of_polls)
  }
next
  case (Suc k)
  {
    case 1
    let ?s1 = "snd (position_sensor_read s)"
    from 1 have here: "min_position s < fst (position_sensor_read s)"
        "fst (position_sensor_read s) < max_position s"
      and rest: "\<forall>v \<in> set (fst (position_sensor_reads k ?s1)).
                   min_position ?s1 < v \<and> v < max_position ?s1"
      and at: "fst (position_sensor_read (snd (position_sensor_reads k ?s1))) \<le> min_position ?s1 \<or>
               max_position ?s1 \<le> fst (position_sensor_read (snd (position_sensor_reads k ?s1)))"
      by (auto simp add: split_beta position_sensor_read_keeps)
    from 1 have s1: "g_button_held ?s1" "motor_is_moving ?s1" "position_sensor_is_calibrated ?s1"
      by (simp_all add: position_sensor_read_keeps_controller position_sensor_read_keeps
            motor_is_moving_def position_sensor_is_calibrated_def)
    from 1 here have "boundary_check_task cfg (Suc (Suc (k + n))) s =
        (case boundary_check_task cfg (Suc (k + n)) ?s1 of
           None \<Rightarrow> None
         | Some (s', delays) \<Rightarrow> Some (s', pdMS_TO_TICKS cfg 100 # delays))"
      by (intro boundary_task_again check_inside_bounds)
    then show ?case
      by (simp add: Suc.IH(1) [OF s1 rest at] split_beta)
  next
    case 2
    let ?s1 = "snd (position_sensor_read s)"
    from 2 have here: "min_position s < fst (position_sensor_read s)"
        "fst (position_sensor_read s) < max_position s"
      and rest: "\<forall>v \<in> set (fst (position_sensor_reads k ?s1)).
                   min_position ?s1 < v \<and> v < max_position ?s1"
      and at: "fst (position_sensor_read (snd (position_sensor_reads k ?s1))) \<le> min_position ?s1 \<or>
               max_position ?s1 \<le> fst (position_sensor_read (snd (position_sensor_reads k ?s1)))"
      by (auto simp add: split_beta position_sensor_read_keeps)
    from 2 have s1: "g_button_held ?s1" "motor_is_moving ?s1" "position_sensor_is_calibrated ?s1"
      by (simp_all add: position_sensor_read_keeps_controller position_sensor_read_keeps
            motor_is_moving_def position_sensor_is_calibrated_def)
    show ?case
    proof (cases m)
      case 0
      with 2 show ?thesis by (simp add: boundary_task_out_of_polls)
    next
      case (Suc j)
      with 2 have "j \<le> k" by simp
      from 2 here have "boundary_check_task cfg (Suc j) s =
        (case boundary_check_task cfg j ?s1 of
           None \<Rightarrow> None
         | Some (s', delays) \<Rightarrow> Some (s', pdMS_TO_TICKS cfg 100 # delays))"
        by (intro boundary_task_again check_inside_bounds)
      with Suc.IH(2) [OF \<open>j \<le> k\<close> s1 rest at] Suc show ?thesis
        by simp
    qed
  }
qed

lemma position_sensor_reads_keep_controller:
  "motor_moving (snd (position_sensor_reads k s)) = motor_moving s"
  "motor_commands (snd (position_sensor_reads k s)) = motor_commands s"
  by (induction k arbitrary: s)
     (simp_all add: split_beta position_sensor_read_keeps_controller)

text \<open>
  C4. The button is held, the motor moves and the sensor is calibrated. The readings of
  the first \<open>k\<close> polls lie strictly between the bounds and the reading of the next poll
  is at or beyond one. Then the task is still polling after each of the first \<open>k\<close>
  polls, and at the next poll it tells the motor to stop, leaves the controller in Idle
  and ends with its handle cleared. It has made \<open>k\<close> delays of 100 ms, one between two
  polls and none between the reading at the bound and the stop.
\<close>

theorem boundary_task_stops_at_bound:
  assumes "g_button_held s" "motor_is_moving s" "position_sensor_is_calibrated s"
    and "\<forall>v \<in> set (fst (position_sensor_reads k s)). min_position s < v \<and> v < max_position s"
    and "fst (position_sensor_read (snd (position_sensor_reads k s))) \<le> min_position s \<or>
         max_position s \<le> fst (position_sensor_read (snd (position_sensor_reads k s)))"
  shows "(\<forall>m \<le> k. boundary_check_task cfg m s = None) \<and>
         (\<exists>s'. boundary_check_task cfg (Suc (k + n)) s =
                 Some (s', replicate k (pdMS_TO_TICKS cfg 100)) \<and>
               controller_get_state s' = IDLE \<and>
               \<not> motor_is_moving s' \<and>
               motor_commands s' = motor_commands s @ [Stop] \<and>
               \<not> g_button_held s' \<and>
               \<not> g_boundary_check_task s')"
proof -
  let ?sk = "snd (position_sensor_reads k s)"
  let ?s' = "(controller_stop (snd (position_sensor_read ?sk)))\<lparr>g_boundary_check_task := False\<rparr>"
  from assms(2) have "motor_moving (snd (position_sensor_read ?sk))"
    by (simp add: position_sensor_read_keeps_controller position_sensor_reads_keep_controller
          motor_is_moving_def)
  then have "controller_get_state ?s' = IDLE \<and> \<not> motor_is_moving ?s' \<and>
     motor_commands ?s' = motor_commands s @ [Stop] \<and>
     \<not> g_button_held ?s' \<and> \<not> g_boundary_check_task ?s'"
    by (simp add: controller_stop_def controller_get_state_def motor_defs
          position_sensor_read_keeps_controller position_sensor_reads_keep_controller)
  with boundary_task_run [OF assms] show ?thesis
    by blast
qed

lemma replicate_4: "replicate 4 x = [x, x, x, x]"
  by (simp add: numeral_eq_Suc)

lemma held_towards_bottom_state:
  "held_towards_bottom =
     (power_on adc_running_down None)
       \<lparr>min_position := 100, max_position := 3900, current_position := 2000,
        calibrated := True, sensor_initialized := True,
        filter_buffer := [2000, 2000, 2000, 2000, 2000], filter_index := 0,
        g_config_state := MOVING_DOWN, g_config_auto_calibrate := True,
        g_button_held := True, g_boundary_check_task := True,
        adc_reads := 5, motor_moving := True,
        motor_commands := [SetDirection MOTOR_DIR_DOWN, SetSpeed 1000, Step 0xFFFFFFFF]\<rparr>"
  by (simp add: held_towards_bottom_def boot_def sdk_plain_def adc_running_down_def
        controller_defs sensor_defs motor_defs position_sensor_reads_numeral Let_def)

lemma held_towards_bottom_readings:
  "fst (position_sensor_reads 4 held_towards_bottom) = [2419, 2838, 3257, 3676]"
  "fst (position_sensor_read (snd (position_sensor_reads 4 held_towards_bottom))) = 3900"
  by (simp_all add: held_towards_bottom_state adc_running_down_def power_on_def sensor_defs
        position_sensor_reads_numeral Let_def)

theorem boundary_task_stops_at_bound_witness:
  "g_button_held held_towards_bottom \<and> motor_is_moving held_towards_bottom \<and>
   position_sensor_is_calibrated held_towards_bottom \<and>
   controller_get_state held_towards_bottom = MOVING_DOWN \<and>
   position_sensor_get_max_position held_towards_bottom = 3900 \<and>
   fst (position_sensor_reads 4 held_towards_bottom) = [2419, 2838, 3257, 3676] \<and>
   fst (position_sensor_read (snd (position_sensor_reads 4 held_towards_bottom))) = 3900 \<and>
   boundary_check_task sdk_plain 4 held_towards_bottom = None \<and>
   (\<exists>s'. boundary_check_task sdk_plain 5 held_towards_bottom = Some (s', [10, 10, 10, 10]) \<and>
         controller_get_state s' = IDLE \<and>
         \<not> motor_is_moving s' \<and>
         motor_commands s' =
           [SetDirection MOTOR_DIR_DOWN, SetSpeed 1000, Step 0xFFFFFFFF, Stop] \<and>
         \<not> g_button_held s' \<and>
         \<not> g_boundary_check_task s')"
proof -
  let ?w = held_towards_bottom
  have facts: "g_button_held ?w" "motor_is_moving ?w" "position_sensor_is_calibrated ?w"
    and more: "controller_get_state ?w = MOVING_DOWN"
      "position_sensor_get_max_position ?w = 3900"
      "motor_commands ?w = [SetDirection MOTOR_DIR_DOWN, SetSpeed 1000, Step 0xFFFFFFFF]"
    and bounds: "min_position ?w = 100" "max_position ?w = 3900"
    by (simp_all add: held_towards_bottom_state power_on_def motor_is_moving_def
          position_sensor_is_calibrated_def controller_get_state_def
          position_sensor_get_max_position_def)
  have inside: "\<forall>v \<in> set (fst (position_sensor_reads 4 ?w)).
                  min_position ?w < v \<and> v < max_position ?w"
    by (simp add: held_towards_bottom_readings bounds)
  have at: "fst (position_sensor_read (snd (position_sensor_reads 4 ?w))) \<le> min_position ?w \<or>
            max_position ?w \<le> fst (position_sensor_read (snd (position_sensor_reads 4 ?w)))"
    by (simp add: held_towards_bottom_readings bounds)
  have ticks: "pdMS_TO_TICKS sdk_plain 100 = 10"
    by (simp add: pdMS_TO_TICKS_def sdk_plain_def)
  note run = boundary_task_stops_at_bound [OF facts inside at, of sdk_plain 0]
  from run [THEN conjunct1] have still: "boundary_check_task sdk_plain 4 ?w = None"
    by simp
  from run [THEN conjunct2] have stop:
    "\<exists>s'. boundary_check_task sdk_plain 5 ?w = Some (s', [10, 10, 10, 10]) \<and>
          controller_get_state s' = IDLE \<and> \<not> motor_is_moving s' \<and>
          motor_commands s' =
            [SetDirection MOTOR_DIR_DOWN, SetSpeed 1000, Step 0xFFFFFFFF, Stop] \<and>
          \<not> g_button_held s' \<and> \<not> g_boundary_check_task s'"
    by (simp add: ticks more replicate_4)
  from facts more(1,2) held_towards_bottom_readings still stop show ?thesis
    by blast
qed

section \<open>Release of a button\<close>

text \<open>
  No producer puts a \<^verbatim>\<open>BUTTON_PRESS_UP\<close> message on the queue: the driver has no callback
  registered for that event, and the poller sends simultaneous presses only.
\<close>

lemma no_release_registered:
  "BUTTON_PRESS_UP \<notin> set (map (\<lambda>(b, e, cb). e) registered_callbacks)"
  "msg_event (button_cb_msg cb) \<noteq> BUTTON_PRESS_UP"
  "iot_button_event b BUTTON_PRESS_UP q = q"
  by (simp_all add: registered_callbacks_def iot_button_event_def, cases cb, simp_all)

lemma poller_sends_no_release:
  "\<forall>m \<in> set (g_button_event_queue t). msg_event m \<noteq> BUTTON_PRESS_UP \<Longrightarrow>
   \<forall>m \<in> set (g_button_event_queue (check_simultaneous_press_pass cfg p t)).
      msg_event m \<noteq> BUTTON_PRESS_UP"
  by (auto simp add: check_simultaneous_press_pass_def Let_def xQueueSend_def)

text \<open>
  The case of the callback that a Release would reach: with the held flag set it stops
  the motor and leaves the controller in Idle, and without it it changes nothing.
\<close>

lemma release_case_of_callback:
  "controller_button_callback cfg BUTTON_PRESS_UP b s =
     (if g_button_held s then controller_stop s else s)"
  "g_button_held s \<Longrightarrow>
   controller_get_state (controller_button_callback cfg BUTTON_PRESS_UP b s) = IDLE \<and>
   \<not> motor_is_moving (controller_button_callback cfg BUTTON_PRESS_UP b s)"
  by (simp_all add: controller_stop_def controller_get_state_def motor_defs)

lemma boundary_task_uncalibrated:
  "g_button_held s \<Longrightarrow> motor_is_moving s \<Longrightarrow> \<not> position_sensor_is_calibrated s \<Longrightarrow>
   boundary_check_task cfg n s = None"
proof (induction n)
  case 0
  then show ?case by (simp add: boundary_task_out_of_polls)
next
  case (Suc n)
  then have "controller_check_boundaries_and_stop s = (False, s)"
    by (simp add: controller_check_boundaries_and_stop_def)
  from boundary_task_again [OF Suc.prems(1,2) this] Suc show ?case
    by simp
qed

text \<open>
  C5, evaluated. After boot the up button is pressed long and released: the driver
  reports the press, the start of the long press and the release. The one message queued
  is the long press. When the consumer has run, the controller is in MovingUp with the
  motor moving and no stop command given, and the boundary-check task, the sensor being
  uncalibrated, goes on polling without end.
\<close>

theorem release_after_long_press:
  "iot_button_events
     [(BUTTON_ID_UP, BUTTON_PRESS_DOWN), (BUTTON_ID_UP, BUTTON_LONG_PRESS_START),
      (BUTTON_ID_UP, BUTTON_PRESS_UP)] [] =
     [\<lparr>msg_event = BUTTON_LONG_PRESS_START, msg_button_id = BUTTON_ID_UP\<rparr>] \<and>
   controller_get_state
     (button_handler_task cfg
        (iot_button_events
           [(BUTTON_ID_UP, BUTTON_PRESS_DOWN), (BUTTON_ID_UP, BUTTON_LONG_PRESS_START),
            (BUTTON_ID_UP, BUTTON_PRESS_UP)] [])
        (boot adc store)) = MOVING_UP \<and>
   motor_is_moving
     (button_handler_task cfg
        (iot_button_events
           [(BUTTON_ID_UP, BUTTON_PRESS_DOWN), (BUTTON_ID_UP, BUTTON_LONG_PRESS_START),
            (BUTTON_ID_UP, BUTTON_PRESS_UP)] [])
        (boot adc store)) \<and>
   motor_commands
     (button_handler_task cfg
        (iot_button_events
           [(BUTTON_ID_UP, BUTTON_PRESS_DOWN), (BUTTON_ID_UP, BUTTON_LONG_PRESS_START),
            (BUTTON_ID_UP, BUTTON_PRESS_UP)] [])
        (boot adc store)) =
     [SetDirection MOTOR_DIR_UP, SetSpeed (CONFIG_MOTOR_DEFAULT_SPEED cfg), Step 0xFFFFFFFF] \<and>
   boundary_check_task cfg n
     (button_handler_task cfg
        (iot_button_events
           [(BUTTON_ID_UP, BUTTON_PRESS_DOWN), (BUTTON_ID_UP, BUTTON_LONG_PRESS_START),
            (BUTTON_ID_UP, BUTTON_PRESS_UP)] [])
        (boot adc store)) = None"
proof -
  have queue: "iot_button_events
     [(BUTTON_ID_UP, BUTTON_PRESS_DOWN), (BUTTON_ID_UP, BUTTON_LONG_PRESS_START),
      (BUTTON_ID_UP, BUTTON_PRESS_UP)] [] =
     [\<lparr>msg_event = BUTTON_LONG_PRESS_START, msg_button_id = BUTTON_ID_UP\<rparr>]"
    by (simp add: iot_button_events_def iot_button_event_def registered_callbacks_def
          xQueueSend_def)
  let ?s = "button_handler_task cfg
              [\<lparr>msg_event = BUTTON_LONG_PRESS_START, msg_button_id = BUTTON_ID_UP\<rparr>]
              (boot adc store)"
  have after: "controller_get_state ?s = MOVING_UP" "motor_is_moving ?s" "g_button_held ?s"
    "\<not> position_sensor_is_calibrated ?s"
    "motor_commands ?s =
       [SetDirection MOTOR_DIR_UP, SetSpeed (CONFIG_MOTOR_DEFAULT_SPEED cfg), Step 0xFFFFFFFF]"
    by (simp_all add: boot_def controller_defs sensor_defs motor_defs Let_def)
  from boundary_task_uncalibrated [OF after(3) after(2) after(4)] after show ?thesis
    unfolding queue by simp
qed


section \<open>The zebra-offset target\<close>

text \<open>What the target is kept within: the constants 0 and 4095.\<close>

lemma zebra_target_pos_range: "fst (zebra_target_pos current_pos zebra_offset last_up) \<le> 4095"
  by (simp add: zebra_target_pos_def Let_def split_beta not_less)

text \<open>
  C6, evaluated. Calibrated to 100..3900, at position 3850, offset 100, in a build with
  zebra support: a double click computes the target 3950, beyond the calibrated maximum,
  and the motor is sent 100 steps down towards it and left moving.
\<close>

theorem zebra_target_beyond_bound:
  "position_sensor_is_calibrated near_bottom \<and>
   position_sensor_get_min_position near_bottom = 100 \<and>
   position_sensor_get_max_position near_bottom = 3900 \<and>
   position_sensor_get_zebra_offset near_bottom = 100 \<and>
   fst (position_sensor_read near_bottom) = 3850 \<and>
   zebra_target_pos 3850 100 (last_direction_up near_bottom) = (3950, True) \<and>
   g_config_position_current_position
     (controller_button_callback sdk_zebra BUTTON_DOUBLE_CLICK BUTTON_ID_DOWN near_bottom) = 3950 \<and>
   motor_commands
     (controller_button_callback sdk_zebra BUTTON_DOUBLE_CLICK BUTTON_ID_DOWN near_bottom) =
     [SetDirection MOTOR_DIR_DOWN, SetSpeed 1000, Step 100] \<and>
   motor_is_moving
     (controller_button_callback sdk_zebra BUTTON_DOUBLE_CLICK BUTTON_ID_DOWN near_bottom)"
  by (simp add: near_bottom_def boot_def sdk_zebra_def adc_constant_def controller_defs
        sensor_defs motor_defs position_sensor_reads_numeral Let_def)

section \<open>Simultaneous-press detection\<close>

lemma task_append:
  "check_simultaneous_press_task cfg (ps @ qs) t =
   check_simultaneous_press_task cfg qs (check_simultaneous_press_task cfg ps t)"
  by (induction ps arbitrary: t) simp_all

lemma hold_continues:
  "both_pressed t \<Longrightarrow> list_all both_down ps \<Longrightarrow> check_simultaneous_press_task cfg ps t = t"
  by (induction ps) (simp_all add: check_simultaneous_press_pass_def both_down_def)

lemma hold_begins:
  "\<not> both_pressed t \<Longrightarrow> ps \<noteq> [] \<Longrightarrow> list_all both_down ps \<Longrightarrow>
   check_simultaneous_press_task cfg ps t =
     t\<lparr>both_pressed := True, press_start_time := tick_count (hd ps)\<rparr>"
  by (cases ps) (simp_all add: check_simultaneous_press_pass_def both_down_def hold_continues)

lemma no_hold_no_message:
  "\<not> both_pressed t \<Longrightarrow> list_all (\<lambda>p. \<not> both_down p) ps \<Longrightarrow>
   g_button_event_queue (check_simultaneous_press_task cfg ps t) = g_button_event_queue t \<and>
   \<not> both_pressed (check_simultaneous_press_task cfg ps t)"
proof (induction ps arbitrary: t)
  case Nil
  then show ?case by simp
next
  case (Cons p ps)
  from Cons.prems have "\<not> both_pressed (check_simultaneous_press_pass cfg p t)"
    and "g_button_event_queue (check_simultaneous_press_pass cfg p t) = g_button_event_queue t"
    by (auto simp add: check_simultaneous_press_pass_def both_down_def)
  with Cons.IH [of "check_simultaneous_press_pass cfg p t"] Cons.prems show ?case
    by simp
qed

lemma release_pass:
  "both_pressed t \<Longrightarrow> \<not> both_down r \<Longrightarrow>
   \<not> both_pressed (check_simultaneous_press_pass cfg r t) \<and>
   g_button_event_queue (check_simultaneous_press_pass cfg r t) =
     (if tick_count r - press_start_time t < pdMS_TO_TICKS cfg 100
      then xQueueSend (g_button_event_queue t)
             \<lparr>msg_event = BUTTON_EVENT_SIMULTANEOUS_PRESS, msg_button_id = BUTTON_ID_UP\<rparr>
      else g_button_event_queue t)"
  by (auto simp add: check_simultaneous_press_pass_def both_down_def)

lemma one_hold:
  assumes "\<not> both_pressed t" "held \<noteq> []" "list_all both_down held" "\<not> both_down r"
    "list_all (\<lambda>p. \<not> both_down p) rest"
  shows "g_button_event_queue (check_simultaneous_press_task cfg (held @ r # rest) t) =
     (if tick_count r - tick_count (hd held) < pdMS_TO_TICKS cfg 100
      then xQueueSend (g_button_event_queue t)
             \<lparr>msg_event = BUTTON_EVENT_SIMULTANEOUS_PRESS, msg_button_id = BUTTON_ID_UP\<rparr>
      else g_button_event_queue t)"
proof -
  let ?t1 = "t\<lparr>both_pressed := True, press_start_time := tick_count (hd held)\<rparr>"
  have a: "check_simultaneous_press_task cfg held t = ?t1"
    using assms by (simp add: hold_begins)
  have b: "both_pressed ?t1" by simp
  from release_pass [OF b assms(4), of cfg]
    no_hold_no_message [OF _ assms(5), of "check_simultaneous_press_pass cfg r ?t1" cfg]
  show ?thesis
    by (simp add: task_append a)
qed

lemma ms_ticks:
  "50 * hz div 1000 = hz div 20" "100 * hz div 1000 = hz div 10" "500 * hz div 1000 = hz div 2"
  for hz :: nat
  by simp_all

lemma small_tick_word: "n \<le> 1000 \<Longrightarrow> unat (word_of_nat n :: u32) = n"
  by (simp add: unat_of_nat take_bit_nat_eq_self)

lemma ticks_50_100:
  assumes "10 \<le> CONFIG_FREERTOS_HZ cfg" "CONFIG_FREERTOS_HZ cfg \<le> 1000"
  shows "pdMS_TO_TICKS cfg 50 < pdMS_TO_TICKS cfg 100"
proof -
  let ?hz = "CONFIG_FREERTOS_HZ cfg"
  have "?hz div 20 = ?hz div 10 div 2"
    by (simp add: div_mult2_eq [symmetric])
  moreover from assms have "0 < ?hz div 10"
    by (simp add: div_greater_zero_iff)
  ultimately have lt: "?hz div 20 < ?hz div 10"
    by simp
  have "?hz div 10 \<le> 1000" "?hz div 20 \<le> 1000" using assms by linarith+
  with lt show ?thesis
    by (simp add: pdMS_TO_TICKS_def ms_ticks word_less_nat_alt small_tick_word)
qed

lemma ticks_500_100:
  assumes "CONFIG_FREERTOS_HZ cfg \<le> 1000"
  shows "\<not> pdMS_TO_TICKS cfg 500 < pdMS_TO_TICKS cfg 100"
proof -
  let ?hz = "CONFIG_FREERTOS_HZ cfg"
  have le: "?hz div 10 \<le> ?hz div 2" by linarith
  have "?hz div 10 \<le> 1000" "?hz div 2 \<le> 1000" using assms by linarith+
  with le show ?thesis
    by (simp add: pdMS_TO_TICKS_def ms_ticks word_less_nat_alt small_tick_word)
qed

text \<open>
  C7, as the code has it. The poller has not seen both buttons pressed. The task then
  sees both buttons pressed for one or more passes, a release at the pass after, and no
  two buttons pressed in the passes that follow. If the ticks from the first pass of the
  hold to the pass of the release are fewer than those of 100 ms, one SimultaneousPress
  message has been sent to the queue with no wait, which adds it when fewer than 10
  messages are pending and drops it otherwise; if they are not fewer, nothing has been
  sent. With a tick rate between 10 and 1000 per second, a release seen 50 ms (in ticks)
  after the first pass of the hold adds exactly one message to a queue with room, and a
  release seen 500 ms after adds none.
\<close>

theorem simultaneous_press_detection:
  assumes "\<not> both_pressed t"
    and "held \<noteq> []" "list_all both_down held"
    and "\<not> both_down r" "list_all (\<lambda>p. \<not> both_down p) rest"
  shows
    "g_button_event_queue (check_simultaneous_press_task cfg (held @ r # rest) t) =
       (if tick_count r - tick_count (hd held) < pdMS_TO_TICKS cfg 100
        then if length (g_button_event_queue t) < 10
             then g_button_event_queue t @
                    [\<lparr>msg_event = BUTTON_EVENT_SIMULTANEOUS_PRESS,
                      msg_button_id = BUTTON_ID_UP\<rparr>]
             else g_button_event_queue t
        else g_button_event_queue t) \<and>
     (length (g_button_event_queue t) < 10 \<longrightarrow>
      10 \<le> CONFIG_FREERTOS_HZ cfg \<longrightarrow> CONFIG_FREERTOS_HZ cfg \<le> 1000 \<longrightarrow>
      tick_count r - tick_count (hd held) = pdMS_TO_TICKS cfg 50 \<longrightarrow>
        g_button_event_queue (check_simultaneous_press_task cfg (held @ r # rest) t) =
          g_button_event_queue t @
            [\<lparr>msg_event = BUTTON_EVENT_SIMULTANEOUS_PRESS, msg_button_id = BUTTON_ID_UP\<rparr>]) \<and>
     (CONFIG_FREERTOS_HZ cfg \<le> 1000 \<longrightarrow>
      tick_count r - tick_count (hd held) = pdMS_TO_TICKS cfg 500 \<longrightarrow>
        g_button_event_queue (check_simultaneous_press_task cfg (held @ r # rest) t) =
          g_button_event_queue t)"
  using ticks_50_100 [of cfg] ticks_500_100 [of cfg]
  by (simp add: one_hold [OF assms] xQueueSend_def)

lemma passes_held_facts:
  "0 < n \<Longrightarrow> passes_held start n \<noteq> []"
  "0 < n \<Longrightarrow> hd (passes_held start n) = pass_held start"
  "list_all both_down (passes_held start n)"
  by (simp_all add: passes_held_def hd_map list_all_iff both_down_def pass_held_def hd_upt)

theorem simultaneous_press_detection_witness:
  "g_button_event_queue
     (check_simultaneous_press_task sdk_plain
        (passes_held 7 5 @ pass_released 12 # passes_after 12) poller_at_rest) =
     [\<lparr>msg_event = BUTTON_EVENT_SIMULTANEOUS_PRESS, msg_button_id = BUTTON_ID_UP\<rparr>] \<and>
   g_button_event_queue
     (check_simultaneous_press_task sdk_plain
        (passes_held 7 50 @ pass_released 57 # passes_after 57) poller_at_rest) = []"
proof -
  have hz: "10 \<le> CONFIG_FREERTOS_HZ sdk_plain" "CONFIG_FREERTOS_HZ sdk_plain \<le> 1000"
    by (simp_all add: sdk_plain_def)
  have rest: "\<not> both_pressed poller_at_rest" "length (g_button_event_queue poller_at_rest) < 10"
    "g_button_event_queue poller_at_rest = []"
    by (simp_all add: poller_at_rest_def)
  have rel: "\<not> both_down (pass_released k)" for k
    by (simp add: both_down_def pass_released_def)
  have after: "list_all (\<lambda>p. \<not> both_down p) (passes_after k)" for k
    by (simp add: both_down_def passes_after_def)
  have d50: "tick_count (pass_released 12) - tick_count (hd (passes_held 7 5)) =
               pdMS_TO_TICKS sdk_plain 50"
    by (simp add: passes_held_facts pass_released_def pass_held_def pdMS_TO_TICKS_def sdk_plain_def)
  have d500: "tick_count (pass_released 57) - tick_count (hd (passes_held 7 50)) =
               pdMS_TO_TICKS sdk_plain 500"
    by (simp add: passes_held_facts pass_released_def pass_held_def pdMS_TO_TICKS_def sdk_plain_def)
  have h5: "passes_held 7 5 \<noteq> []" "passes_held 7 50 \<noteq> []"
    by (simp_all add: passes_held_facts)
  note short = simultaneous_press_detection
         [OF rest(1) h5(1) passes_held_facts(3) [of 7 5] rel [of 12] after [of 12],
          of sdk_plain, THEN conjunct2, THEN conjunct1, rule_format, OF rest(2) hz d50]
  note long = simultaneous_press_detection
         [OF rest(1) h5(2) passes_held_facts(3) [of 7 50] rel [of 57] after [of 57],
          of sdk_plain, THEN conjunct2, THEN conjunct2, rule_format, OF hz(2) d500]
  from short long rest(3) show ?thesis
    by simp
qed

text \<open>
  C7 as stated fails: with ten messages pending, the same hold of 50 ms and release leave
  the queue as it was, and no SimultaneousPress message is in it.
\<close>

theorem full_queue_counterexample:
  "length (g_button_event_queue poller_queue_full) = 10 \<and>
   tick_count (pass_released 12) - tick_count (hd (passes_held 7 5)) =
     pdMS_TO_TICKS sdk_plain 50 \<and>
   g_button_event_queue
     (check_simultaneous_press_task sdk_plain
        (passes_held 7 5 @ pass_released 12 # passes_after 12) poller_queue_full) =
     g_button_event_queue poller_queue_full \<and>
   \<lparr>msg_event = BUTTON_EVENT_SIMULTANEOUS_PRESS, msg_button_id = BUTTON_ID_UP\<rparr>
     \<notin> set (g_button_event_queue
               (check_simultaneous_press_task sdk_plain
                  (passes_held 7 5 @ pass_released 12 # passes_after 12) poller_queue_full))"
proof -
  have full: "length (g_button_event_queue poller_queue_full) = 10"
    "\<not> both_pressed poller_queue_full"
    "\<lparr>msg_event = BUTTON_EVENT_SIMULTANEOUS_PRESS, msg_button_id = BUTTON_ID_UP\<rparr>
       \<notin> set (g_button_event_queue poller_queue_full)"
    by (simp_all add: poller_queue_full_def)
  have d50: "tick_count (pass_released 12) - tick_count (hd (passes_held 7 5)) =
               pdMS_TO_TICKS sdk_plain 50"
    by (simp add: passes_held_facts pass_released_def pass_held_def pdMS_TO_TICKS_def sdk_plain_def)
  have "g_button_event_queue
     (check_simultaneous_press_task sdk_plain
        (passes_held 7 5 @ pass_released 12 # passes_after 12) poller_queue_full) =
     g_button_event_queue poller_queue_full"
    using full(1)
    by (subst one_hold)
       (simp_all add: full passes_held_facts both_down_def pass_released_def passes_after_def
          xQueueSend_def)
  with full d50 show ?thesis
    by simp
qed

section \<open>Rounding to single precision\<close>

lemma pow2_nonpos: "e \<le> 0 \<Longrightarrow> pow2 e = 1 / 2 ^ nat (- e)"
  by (cases "e = 0") (simp_all add: pow2_def)

lemma pow2_pos: "0 < pow2 e"
  by (simp add: pow2_def)

lemma pow2_mono: "d \<le> e \<Longrightarrow> pow2 d \<le> pow2 e"
proof -
  assume de: "d \<le> e"
  have eq: "pow2 k = 2 powr (real_of_int k)" for k
    by (cases "0 \<le> k") (simp_all add: pow2_def powr_realpow [symmetric] powr_minus_divide
        del: powr_realpow)
  show ?thesis unfolding eq using de by simp
qed

lemma round_half_even_of_int: "round_half_even (of_int m) = m"
  by (simp add: round_half_even_def)

lemma round_half_even_bounds:
  "0 \<le> y \<Longrightarrow> 0 \<le> round_half_even y" "of_int (round_half_even y) \<le> y + 1"
  by (auto simp: round_half_even_def Let_def) linarith+

lemma binade_le:
  assumes "0 < a" "a \<le> 2 ^ n"
  shows "binade a \<le> int n"
proof (cases "1 \<le> a")
  case True
  then have pos: "0 < \<lfloor>a\<rfloor>" by linarith
  from bitlen_bounds [OF pos] have "2 ^ nat (bitlen \<lfloor>a\<rfloor> - 1) \<le> \<lfloor>a\<rfloor>" by simp
  then have "(2::real) ^ nat (bitlen \<lfloor>a\<rfloor> - 1) \<le> of_int \<lfloor>a\<rfloor>"
    by (metis of_int_le_iff of_int_numeral of_int_power)
  also have "\<dots> \<le> a" by simp
  also note assms(2)
  finally have "nat (bitlen \<lfloor>a\<rfloor> - 1) \<le> n"
    by (simp add: power_le_imp_le_exp)
  with True show ?thesis
    by (simp add: binade_def)
next
  case False
  then show ?thesis
    using bitlen_nonneg [of "\<lceil>1 / a\<rceil> - 1"] by (simp add: binade_def)
qed

lemma round32_pos:
  "0 < x \<Longrightarrow>
   r = of_int (round_half_even (x / pow2 (max (binade x) (- 126) - 23))) *
       pow2 (max (binade x) (- 126) - 23) \<Longrightarrow>
   r < 2 ^ 128 \<Longrightarrow> round32 x = Finite r"
  by (simp add: round32_def Let_def)

text \<open>
  A number from 0 to \<open>2 ^ n\<close> rounds to a number, not to an infinity, that is not negative
  and exceeds it by at most the spacing at \<open>2 ^ n\<close>.
\<close>

lemma round32_bound:
  assumes "0 \<le> x" "x \<le> 2 ^ n" "n \<le> 126"
  shows "\<exists>r. round32 x = Finite r \<and> 0 \<le> r \<and> r \<le> x + pow2 (int n - 23)"
proof (cases "x = 0")
  case True
  then show ?thesis using pow2_pos [of "int n - 23"] by (simp add: round32_def less_imp_le)
next
  case False
  with assms have pos: "0 < x" by simp
  define ulp where "ulp = pow2 (max (binade x) (- 126) - 23)"
  define r where "r = of_int (round_half_even (x / ulp)) * ulp"
  have ulp_pos: "0 < ulp" by (simp add: ulp_def pow2_pos)
  have "max (binade x) (- 126) \<le> int n"
    using binade_le [OF pos assms(2)] by simp
  then have ulp_le: "ulp \<le> pow2 (int n - 23)"
    unfolding ulp_def by (intro pow2_mono) simp
  have "0 \<le> x / ulp" using pos ulp_pos by simp
  then have r0: "0 \<le> r"
    using round_half_even_bounds(1) [of "x / ulp"] ulp_pos by (simp add: r_def)
  have "r \<le> (x / ulp + 1) * ulp"
    unfolding r_def using round_half_even_bounds(2) [of "x / ulp"] ulp_pos
    by (intro mult_right_mono) simp_all
  also have "\<dots> = x + ulp" using ulp_pos by (simp add: field_simps)
  finally have r_le: "r \<le> x + pow2 (int n - 23)" using ulp_le by simp
  have "pow2 (int n - 23) \<le> pow2 (int n)" by (intro pow2_mono) simp
  also have "\<dots> = 2 ^ n" by (simp add: pow2_def)
  finally have "r \<le> 2 ^ n + 2 ^ n" using r_le assms(2) by simp
  also have "\<dots> = (2::real) ^ Suc n" by simp
  also have "\<dots> < 2 ^ 128" using assms(3) by (intro power_strict_increasing) simp_all
  finally have small: "r < 2 ^ 128" .
  from pos small have "round32 x = Finite r"
    by (intro round32_pos) (simp_all add: r_def ulp_def)
  with r0 r_le show ?thesis by blast
qed

text \<open>A natural number below \<open>2 ^ 24\<close> is a binary32 number: rounding leaves it as it is.\<close>

lemma round32_exact:
  assumes "n < 2 ^ 24"
  shows "round32 (real n) = Finite (real n)"
proof (cases "n = 0")
  case True
  then show ?thesis by (simp add: round32_def)
next
  case False
  then have pos: "0 < int n" by simp
  define b where "b = bitlen (int n)"
  from bitlen_bounds [OF pos] have lo: "2 ^ nat (b - 1) \<le> int n"
    by (simp add: b_def)
  have b1: "1 \<le> b"
    using bitlen_eq_zero_iff [of "int n"] bitlen_nonneg [of "int n"] pos by (simp add: b_def)
  from assms have "int n < int (2 ^ 24)" by (simp only: of_nat_less_iff)
  then have n24: "int n < 2 ^ 24" by simp
  with lo have "(2::int) ^ nat (b - 1) < 2 ^ 24" by (rule le_less_trans)
  then have "nat (b - 1) < 24" by (rule power_less_imp_less_exp [rotated]) simp
  with b1 have b24: "b \<le> 24" by simp
  define k where "k = nat (24 - b)"
  define u where "u = pow2 (max (binade (real n)) (- 126) - 23)"
  have bin: "binade (real n) = b - 1"
    using False by (simp add: binade_def b_def)
  have "max (b - 1) (- 126) - 23 = - int k" using b1 b24 by (simp add: k_def)
  then have u: "u = 1 / 2 ^ k"
    by (simp add: u_def bin pow2_nonpos)
  have "real n / u = of_int (int n * 2 ^ k)" by (simp add: u)
  then have "round_half_even (real n / u) = int n * 2 ^ k"
    by (simp only: round_half_even_of_int)
  then have r: "real n = of_int (round_half_even (real n / u)) * u"
    by (simp add: u)
  from assms have "real n < real (2 ^ 24)" by (simp only: of_nat_less_iff)
  then have "real n < 2 ^ 24" by simp
  also have "(2::real) ^ 24 < 2 ^ 128" by simp
  finally have small: "real n < 2 ^ 128" .
  from False have "0 < real n" by simp
  then show ?thesis
    using r small unfolding u_def by (rule round32_pos)
qed

text \<open>Evaluation of \<open>round32\<close> on numerals.\<close>

lemma bitlen_numeral:
  "bitlen (numeral k) = bitlen (numeral k div 2) + 1" "bitlen 1 = 1"
  by (subst compute_bitlen, simp)+

lemmas round32_eval =
  round32_def binade_def pow2_def round_half_even_def Let_def bitlen_numeral

text \<open>
  Known binary32 values: 0.7 and a third as \<^verbatim>\<open>float\<close>s, the tie at \<open>2 ^ 24 + 1\<close>, which
  goes to the even neighbour, and 0.7f times 1000, which is 700.
\<close>

lemma round32_examples:
  "round32 (7 / 10) = Finite (11744051 / 2 ^ 24)"
  "round32 (1 / 3) = Finite (11184811 / 2 ^ 25)"
  "round32 16777217 = Finite 16777216"
  "round32 16777219 = Finite 16777220"
  "f32_mul (u32_to_f32 1000) (round32 (7 / 10)) = Finite 700"
  "f32_to_u32 (f32_div_100 (f32_mul (u32_to_f32 1000) (round32 (7 / 10)))) = Some 7"
  by (simp_all add: round32_eval u32_to_f32_def)

section \<open>Position by percentage\<close>

lemma round32_nat_finite:
  assumes "n < 2 ^ 32"
  shows "\<exists>v. round32 (real n) = Finite v \<and> 0 \<le> v \<and> v \<le> 2 ^ 32 + 2 ^ 9"
proof -
  from assms have le: "real n \<le> 2 ^ 32" by simp
  from round32_bound [of "real n" 32] le
  obtain r where "round32 (real n) = Finite r" "0 \<le> r" "r \<le> real n + pow2 9"
    by auto
  moreover have "pow2 9 = 2 ^ 9" by (simp add: pow2_def)
  ultimately show ?thesis using le by auto
qed

lemma u32_to_f32_finite: "\<exists>v. u32_to_f32 w = Finite v \<and> 0 \<le> v \<and> v \<le> 2 ^ 32 + 2 ^ 9"
  unfolding u32_to_f32_def
  by (rule round32_nat_finite) (use unsigned_less [of w, where ?'a = nat] in simp)

lemma percentage_0_offset:
  "f32_to_u32 (f32_div_100 (f32_mul (u32_to_f32 w) (Finite 0))) = Some 0"
proof -
  from u32_to_f32_finite [of w] obtain v where "u32_to_f32 w = Finite v" by blast
  then show ?thesis by (simp add: round32_def)
qed

lemma f32_to_u32_nat: "n < 2 ^ 32 \<Longrightarrow> f32_to_u32 (Finite (real n)) = Some (word_of_nat n)"
  by simp

lemma percentage_100_offset_nat:
  assumes "n * 100 < 2 ^ 24"
  shows "f32_to_u32 (f32_div_100 (f32_mul (round32 (real n)) (Finite 100))) = Some (word_of_nat n)"
proof -
  from assms have small: "n < 2 ^ 24" by simp
  then have "n < 2 ^ 32" by simp
  note conv = round32_exact [OF small]
  have "real n * 100 = real (n * 100)" by simp
  then have mul: "f32_mul (Finite (real n)) (Finite 100) = Finite (real (n * 100))"
    using round32_exact [OF assms] by simp
  have "real (n * 100) / 100 = real n" by simp
  then have quot: "f32_div_100 (Finite (real (n * 100))) = Finite (real n)"
    using conv by simp
  show ?thesis
    by (simp only: conv mul quot f32_to_u32_nat [OF \<open>n < 2 ^ 32\<close>])
qed

lemma percentage_100_offset:
  "unat w * 100 < 2 ^ 24 \<Longrightarrow>
   f32_to_u32 (f32_div_100 (f32_mul (u32_to_f32 w) (Finite 100))) = Some w"
  using percentage_100_offset_nat [of "unat w"] by (simp add: u32_to_f32_def)

text \<open>
  Fifty percent of any range is within \<^verbatim>\<open>uint32_t\<close>, so the double click always has its
  target.
\<close>

lemma percentage_50_offset:
  "\<exists>offset. f32_to_u32 (f32_div_100 (f32_mul (u32_to_f32 w) (Finite 50))) = Some offset"
proof -
  from u32_to_f32_finite [of w] obtain v
    where v: "u32_to_f32 w = Finite v" "0 \<le> v" "v \<le> 2 ^ 32 + 2 ^ 9" by blast
  then have x: "0 \<le> v * 50" "v * 50 \<le> 2 ^ 38" by simp_all
  from round32_bound [OF x] obtain r
    where r: "round32 (v * 50) = Finite r" "0 \<le> r" "r \<le> v * 50 + pow2 15" by auto
  have p15: "pow2 15 = 2 ^ 15" by (simp add: pow2_def)
  from r v have y: "0 \<le> r / 100" "r / 100 \<le> 2 ^ 32" by (simp_all add: p15)
  from round32_bound [OF y] obtain q
    where q: "round32 (r / 100) = Finite q" "0 \<le> q" "q \<le> r / 100 + pow2 9" by auto
  have p9: "pow2 9 = 2 ^ 9" by (simp add: pow2_def)
  from q r v have "q < 2 ^ 32" by (simp add: p9 p15)
  with q show ?thesis by (simp add: v r)
qed

lemma percentage_50_defined:
  "controller_set_position_percentage cfg (Finite 50) s \<noteq> None"
  using percentage_50_offset [of "max_position s - min_position s"]
  by (auto simp add: controller_set_position_percentage_def Let_def split_beta
        position_sensor_get_percentage_def position_sensor_read_keeps
        position_sensor_get_min_position_def position_sensor_get_max_position_def
        position_sensor_is_calibrated_def)

text \<open>A NaN passes the clamp as it is, and the conversion of the target is undefined.\<close>

lemma percentage_nan_undefined:
  "position_sensor_is_calibrated s \<Longrightarrow> controller_set_position_percentage cfg NaN s = None"
proof -
  obtain v where "u32_to_f32 (max_position s - min_position s) = Finite v"
    using u32_to_f32_finite by blast
  then show "position_sensor_is_calibrated s \<Longrightarrow> ?thesis"
    by (simp add: controller_set_position_percentage_def Let_def split_beta
        position_sensor_get_percentage_def position_sensor_read_keeps
        position_sensor_get_min_position_def position_sensor_get_max_position_def
        position_sensor_is_calibrated_def)
qed

text \<open>
  C10, as the code has it. For every argument \<open>p\<close> that is not a NaN,
  \<^verbatim>\<open>controller_set_position_percentage\<close> called with \<open>p\<close> does what it does when called
  with \<open>p\<close> clamped to 0..100. On a calibrated sensor a call with \<open>p\<close> below 0 is a
  move to the minimum position, and a call with \<open>p\<close> above 100 is a move to the maximum
  position when 100 times the range is below \<open>2 ^ 24\<close>, where the single-precision
  product is exact.
\<close>

theorem set_position_percentage_clamps:
  assumes "p \<noteq> NaN"
  shows
    "controller_set_position_percentage cfg p s =
       controller_set_position_percentage cfg (clamp_0_100 p) s \<and>
     (position_sensor_is_calibrated s \<longrightarrow> f32_less p (Finite 0) \<longrightarrow>
        controller_set_position_percentage cfg p s =
          Some (controller_move_to_position cfg (position_sensor_get_min_position s)
                  (position_sensor_get_percentage (snd (position_sensor_read s))))) \<and>
     (position_sensor_is_calibrated s \<longrightarrow> f32_less (Finite 100) p \<longrightarrow>
      unat (max_position s - min_position s) * 100 < 2 ^ 24 \<longrightarrow>
        controller_set_position_percentage cfg p s =
          Some (controller_move_to_position cfg (position_sensor_get_max_position s)
                  (position_sensor_get_percentage (snd (position_sensor_read s)))))"
  using assms percentage_0_offset [of "max_position s - min_position s"]
    percentage_100_offset [of "max_position s - min_position s"]
  by (cases p)
     (auto simp add: controller_set_position_percentage_def clamp_0_100_def fmaxf_def fminf_def
        Let_def split_beta position_sensor_get_percentage_def position_sensor_read_keeps
        position_sensor_get_min_position_def position_sensor_get_max_position_def
        position_sensor_is_calibrated_def
        simp del: f32_to_u32.simps f32_div_100.simps f32_mul.simps)

lemma calibrated_at_rest_state:
  "calibrated_at_rest =
     (power_on (adc_constant 2000) None)
       \<lparr>min_position := 100, max_position := 3900, current_position := 2000,
        calibrated := True, sensor_initialized := True,
        filter_buffer := [2000, 2000, 2000, 2000, 2000], filter_index := 0,
        g_config_auto_calibrate := True, adc_reads := 5\<rparr>"
  by (simp add: calibrated_at_rest_def boot_def adc_constant_def controller_defs sensor_defs
        motor_defs position_sensor_reads_numeral Let_def)

theorem set_position_percentage_clamps_witness:
  "position_sensor_is_calibrated calibrated_at_rest \<and>
   position_sensor_get_min_position calibrated_at_rest = 100 \<and>
   position_sensor_get_max_position calibrated_at_rest = 3900 \<and>
   controller_set_position_percentage sdk_plain (Finite (- 5)) calibrated_at_rest =
     controller_set_position_percentage sdk_plain (Finite 0) calibrated_at_rest \<and>
   controller_set_position_percentage sdk_plain (Finite 150) calibrated_at_rest =
     controller_set_position_percentage sdk_plain (Finite 100) calibrated_at_rest \<and>
   map_option g_config_position_current_position
     (controller_set_position_percentage sdk_plain (Finite (- 5)) calibrated_at_rest) =
     Some 100 \<and>
   map_option g_config_position_current_position
     (controller_set_position_percentage sdk_plain (Finite 150) calibrated_at_rest) =
     Some 3900"
proof -
  let ?w = calibrated_at_rest
  let ?read = "position_sensor_get_percentage (snd (position_sensor_read ?w))"
  have cal: "position_sensor_is_calibrated ?w"
    "position_sensor_get_min_position ?w = 100" "position_sensor_get_max_position ?w = 3900"
    by (simp_all add: calibrated_at_rest_state power_on_def position_sensor_is_calibrated_def
          position_sensor_get_min_position_def position_sensor_get_max_position_def)
  then have range: "unat (max_position ?w - min_position ?w) * 100 < 2 ^ 24"
    by (simp add: position_sensor_get_min_position_def position_sensor_get_max_position_def)
  have clamped: "clamp_0_100 (Finite (- 5)) = Finite 0" "clamp_0_100 (Finite 150) = Finite 100"
    by (simp_all add: clamp_0_100_def fmaxf_def fminf_def)
  have top: "g_config_position_current_position
               (controller_move_to_position sdk_plain 100 ?read) = 100"
    and bottom: "g_config_position_current_position
               (controller_move_to_position sdk_plain 3900 ?read) = 3900"
    by (simp_all add: calibrated_at_rest_state power_on_def sdk_plain_def adc_constant_def
          controller_defs sensor_defs motor_defs Let_def)
  note below = set_position_percentage_clamps [of "Finite (- 5)" sdk_plain ?w]
  note above = set_position_percentage_clamps [of "Finite 150" sdk_plain ?w]
  from below [THEN conjunct1]
  have e1: "controller_set_position_percentage sdk_plain (Finite (- 5)) ?w =
            controller_set_position_percentage sdk_plain (Finite 0) ?w"
    by (simp add: clamped)
  from above [THEN conjunct1]
  have e2: "controller_set_position_percentage sdk_plain (Finite 150) ?w =
            controller_set_position_percentage sdk_plain (Finite 100) ?w"
    by (simp add: clamped)
  from below [THEN conjunct2, THEN conjunct1] cal
  have "controller_set_position_percentage sdk_plain (Finite (- 5)) ?w =
        Some (controller_move_to_position sdk_plain 100 ?read)"
    by simp
  with top have r1: "map_option g_config_position_current_position
                       (controller_set_position_percentage sdk_plain (Finite (- 5)) ?w) =
                     Some 100"
    by simp
  from above [THEN conjunct2, THEN conjunct2] cal range
  have "controller_set_position_percentage sdk_plain (Finite 150) ?w =
        Some (controller_move_to_position sdk_plain 3900 ?read)"
    by simp
  with bottom have r2: "map_option g_config_position_current_position
                          (controller_set_position_percentage sdk_plain (Finite 150) ?w) =
                        Some 3900"
    by simp
  from cal e1 e2 r1 r2 show ?thesis
    by blast
qed

lemma wide_offset:
  "f32_to_u32 (f32_div_100 (f32_mul (u32_to_f32 16777217) (Finite 100))) = Some 16777216"
  by (simp add: round32_eval u32_to_f32_def)

text \<open>
  C10 as stated fails. Calibrated to 0..16777217, a call with 150 percent targets
  16777216, one short of the maximum position: the range is not a binary32 number and
  rounds to \<open>2 ^ 24\<close> on its way into the product.
\<close>

theorem percentage_above_100_counterexample:
  "position_sensor_is_calibrated calibrated_wide \<and>
   position_sensor_get_min_position calibrated_wide = 0 \<and>
   position_sensor_get_max_position calibrated_wide = 16777217 \<and>
   f32_less (Finite 100) (Finite 150) \<and>
   map_option g_config_position_current_position
     (controller_set_position_percentage sdk_plain (Finite 150) calibrated_wide) =
     Some 16777216 \<and>
   map_option motor_commands
     (controller_set_position_percentage sdk_plain (Finite 150) calibrated_wide) =
     Some [SetDirection MOTOR_DIR_DOWN, SetSpeed 1000, Step 16776016]"
  by (simp add: controller_set_position_percentage_def wide_offset calibrated_wide_def boot_def
        sdk_plain_def adc_constant_def controller_defs sensor_defs motor_defs Let_def
        del: f32_to_u32.simps f32_div_100.simps f32_mul.simps)

end
